theory Spec2Isabelle
  imports Main
begin

section \<open>Text-range utilities\<close>

text \<open>
  Strings are lists of 8-bit characters; a character stands for one UTF-16 code unit of the
  JavaScript string, so the development covers texts in the Latin-1 range, where offsets,
  lengths and columns agree with the source's. Numbers that the source may drive below
  zero (lines and columns of positions) are integers.
\<close>

type_synonym uri = string

record position =
  line :: int
  character :: int

record range =
  start :: position
  endp :: position

text \<open>
  Modelled from the spec: the text-range utilities (types/position.ts and types/range.ts:
  translate, contains, equal, modify over line/character coordinates) are not among the
  source files. Positions are ordered by line, then by character; a range contains a
  position lying between its two ends, both ends included, and contains a range when it
  contains both of its ends.
\<close>

definition makePosition :: "int \<Rightarrow> int \<Rightarrow> position" where
  "makePosition l c = \<lparr>line = l, character = c\<rparr>"

definition makeRange :: "int \<Rightarrow> int \<Rightarrow> int \<Rightarrow> int \<Rightarrow> range" where
  "makeRange sl sc el ec = \<lparr>start = makePosition sl sc, endp = makePosition el ec\<rparr>"

definition rangeOf :: "position \<Rightarrow> position \<Rightarrow> range" where
  "rangeOf s e = \<lparr>start = s, endp = e\<rparr>"

definition translatePosition :: "position \<Rightarrow> int \<Rightarrow> int \<Rightarrow> position" where
  "translatePosition pos lineDelta characterDelta =
     \<lparr>line = line pos + lineDelta, character = character pos + characterDelta\<rparr>"

definition arePositionsEqual :: "position \<Rightarrow> position \<Rightarrow> bool" where
  "arePositionsEqual a b = (line a = line b \<and> character a = character b)"

definition isBefore :: "position \<Rightarrow> position \<Rightarrow> bool" where
  "isBefore pos other =
     (line pos < line other \<or> (line pos = line other \<and> character pos < character other))"

definition positionInRange :: "range \<Rightarrow> position \<Rightarrow> bool" where
  "positionInRange r p = (\<not> isBefore p (start r) \<and> \<not> isBefore (endp r) p)"

definition rangeContains :: "range \<Rightarrow> range \<Rightarrow> bool" where
  "rangeContains r other = (positionInRange r (start other) \<and> positionInRange r (endp other))"

definition areRangesEqual :: "range \<Rightarrow> range \<Rightarrow> bool" where
  "areRangesEqual a b =
     (line (start a) = line (start b) \<and> character (start a) = character (start b) \<and>
      line (endp a) = line (endp b) \<and> character (endp a) = character (endp b))"

definition modifyRange :: "range \<Rightarrow> position option \<Rightarrow> position option \<Rightarrow> range" where
  "modifyRange r s e =
     \<lparr>start = (case s of None \<Rightarrow> start r | Some p \<Rightarrow> p),
      endp = (case e of None \<Rightarrow> endp r | Some p \<Rightarrow> p)\<rparr>"

section \<open>Characters and strings of the source\<close>

definition chBackslash :: char where "chBackslash = CHR 0x5C"
definition chBacktick :: char where "chBacktick = CHR 0x60"
definition chDQuote :: char where "chDQuote = CHR 0x22"
definition chSQuote :: char where "chSQuote = CHR 0x27"
definition chTab :: char where "chTab = CHR 0x09"
definition chLF :: char where "chLF = CHR 0x0A"
definition chCR :: char where "chCR = CHR 0x0D"

text \<open>The characters JavaScript's \<open>\s\<close> and \<open>trim\<close> take for white space, in the 8-bit range.\<close>

definition whiteSpace :: "char list" where
  "whiteSpace = [CHR 0x09, CHR 0x0A, CHR 0x0B, CHR 0x0C, CHR 0x0D, CHR 0x20, CHR 0xA0]"

definition lowerLetters :: "char list" where "lowerLetters = ''abcdefghijklmnopqrstuvwxyz''"
definition upperLetters :: "char list" where "upperLetters = ''ABCDEFGHIJKLMNOPQRSTUVWXYZ''"
definition digits :: "char list" where "digits = ''0123456789''"

definition wordChars :: "char list" where
  "wordChars = lowerLetters @ upperLetters @ digits @ ''_''"

definition startsWith :: "string \<Rightarrow> string \<Rightarrow> bool" where
  "startsWith s p = (take (length p) s = p)"

definition trimStart :: "string \<Rightarrow> string" where
  "trimStart s = dropWhile (\<lambda>c. c \<in> set whiteSpace) s"

definition trim :: "string \<Rightarrow> string" where
  "trim s = rev (trimStart (rev (trimStart s)))"

text \<open>\<open>s.indexOf(c)\<close> for a single character: the first index, or nothing where JavaScript gives -1.\<close>

fun indexOfChar :: "string \<Rightarrow> char \<Rightarrow> nat option" where
  "indexOfChar [] c = None"
| "indexOfChar (x # xs) c = (if x = c then Some 0 else map_option Suc (indexOfChar xs c))"

text \<open>\<open>s.indexOf(t)\<close> for a string.\<close>

fun indexOf :: "string \<Rightarrow> string \<Rightarrow> nat option" where
  "indexOf [] t = (if t = [] then Some 0 else None)"
| "indexOf (x # xs) t =
     (if take (length t) (x # xs) = t then Some 0 else map_option Suc (indexOf xs t))"

section \<open>Text documents\<close>

record textDocument =
  docUri :: uri
  docVersion :: int
  docText :: string

text \<open>
  Modelled from the spec: the document object (ITextDocument, getLine) is an external
  collaborator that is not among the source files. A line ends at a line feed, at a
  carriage return followed by a line feed, or at a lone carriage return; an offset is
  clamped to the text; a position is a zero-based line and the offset within that line.
\<close>

fun positionFrom :: "int \<Rightarrow> int \<Rightarrow> nat \<Rightarrow> string \<Rightarrow> position" where
  "positionFrom l c 0 s = makePosition l c"
| "positionFrom l c (Suc n) [] = makePosition l c"
| "positionFrom l c (Suc n) (x # xs) =
     (if x = chLF \<or> (x = chCR \<and> (case xs of [] \<Rightarrow> True | y # ys \<Rightarrow> y \<noteq> chLF))
      then positionFrom (l + 1) 0 n xs
      else positionFrom l (c + 1) n xs)"

definition positionAt :: "textDocument \<Rightarrow> nat \<Rightarrow> position" where
  "positionAt doc off = positionFrom 0 0 off (docText doc)"

text \<open>The lines of a text, without their line ends.\<close>

fun splitLines :: "string \<Rightarrow> string \<Rightarrow> string list" where
  "splitLines acc [] = [rev acc]"
| "splitLines acc (x # xs) =
     (if x = chLF then rev acc # splitLines [] xs
      else if x = chCR then
        (case xs of [] \<Rightarrow> rev acc # splitLines [] xs
         | y # ys \<Rightarrow> if y = chLF then rev acc # splitLines [] ys else rev acc # splitLines [] xs)
      else splitLines (x # acc) xs)"

definition docLines :: "textDocument \<Rightarrow> string list" where
  "docLines doc = splitLines [] (docText doc)"

definition getLine :: "textDocument \<Rightarrow> int \<Rightarrow> string" where
  "getLine doc l =
     (if 0 \<le> l \<and> nat l < length (docLines doc) then docLines doc ! nat l else [])"

text \<open>The offset of a position: the line is clamped to the text and the column to the line.\<close>

fun offsetFrom :: "int \<Rightarrow> int \<Rightarrow> string \<Rightarrow> nat" where
  "offsetFrom l c [] = 0"
| "offsetFrom l c (x # xs) =
     (if l \<le> 0 then
        (if c \<le> 0 \<or> x = chLF \<or> x = chCR then 0 else Suc (offsetFrom l (c - 1) xs))
      else if x = chLF \<or> (x = chCR \<and> (case xs of [] \<Rightarrow> True | y # ys \<Rightarrow> y \<noteq> chLF))
        then Suc (offsetFrom (l - 1) c xs)
        else Suc (offsetFrom l c xs))"

definition offsetAt :: "textDocument \<Rightarrow> position \<Rightarrow> nat" where
  "offsetAt doc p = offsetFrom (line p) (character p) (docText doc)"

definition getText :: "textDocument \<Rightarrow> range \<Rightarrow> string" where
  "getText doc r =
     (let a = offsetAt doc (start r); b = offsetAt doc (endp r)
      in take (b - a) (drop a (docText doc)))"

section \<open>Regular expressions\<close>

text \<open>
  The scanners of the source are JavaScript regular expressions. They are embedded as
  syntax trees and run by a backtracking matcher that returns every way to match, in the
  order in which JavaScript tries them: the first result is the match that
  \<open>exec\<close>, \<open>match\<close> and \<open>matchAll\<close> report. A state holds the character before the
  current index (for look-behind and for \<open>^\<close>), the text from the current index on, and the
  captured groups (the latest capture of a group first).
\<close>

datatype cls = OneOf "char list" | NoneOf "char list"

fun inCls :: "cls \<Rightarrow> char \<Rightarrow> bool" where
  "inCls (OneOf cs) c = (c \<in> set cs)"
| "inCls (NoneOf cs) c = (c \<notin> set cs)"

datatype re =
    REps
  | RCls cls
  | RSeq re re
  | RAlt re re
  | RStar re
  | RLazyStar re
  | RGrp nat re
  | RBackRef nat
  | RNotAhead cls
  | RNotBehind cls
  | RBol
  | RBolM
  | REol

datatype mstate = MState (prev: "char option") (rest: string) (caps: "(nat \<times> string) list")

fun groupsOf :: "re \<Rightarrow> nat list" where
  "groupsOf (RSeq a b) = groupsOf a @ groupsOf b"
| "groupsOf (RAlt a b) = groupsOf a @ groupsOf b"
| "groupsOf (RStar r) = groupsOf r"
| "groupsOf (RLazyStar r) = groupsOf r"
| "groupsOf (RGrp k r) = k # groupsOf r"
| "groupsOf r = []"

text \<open>Every repetition of a quantified group starts with the captures of that group undefined.\<close>

definition resetCaps :: "re \<Rightarrow> mstate \<Rightarrow> mstate" where
  "resetCaps r st =
     MState (prev st) (rest st) (filter (\<lambda>kv. fst kv \<notin> set (groupsOf r)) (caps st))"

lemma rest_resetCaps [simp]: "rest (resetCaps r st) = rest st"
  by (simp add: resetCaps_def)

text \<open>
  \<open>rm r st\<close>: the states after a match of \<open>r\<close> from \<open>st\<close>. A greedy star tries one more
  repetition before stopping, a lazy one stops first; a repetition that consumes nothing
  is not taken again. A back-reference to a group without capture matches the empty string.
\<close>

function rm :: "re \<Rightarrow> mstate \<Rightarrow> mstate list" where
  "rm REps st = [st]"
| "rm (RCls c) st =
     (case rest st of [] \<Rightarrow> []
      | x # xs \<Rightarrow> if inCls c x then [MState (Some x) xs (caps st)] else [])"
| "rm (RSeq a b) st = concat (map (rm b) (rm a st))"
| "rm (RAlt a b) st = rm a st @ rm b st"
| "rm (RStar r) st =
     concat (map (\<lambda>st'. if length (rest st') < length (rest st) then rm (RStar r) st' else [])
                 (rm r (resetCaps r st))) @ [st]"
| "rm (RLazyStar r) st =
     st # concat (map (\<lambda>st'. if length (rest st') < length (rest st) then rm (RLazyStar r) st' else [])
                      (rm r (resetCaps r st)))"
| "rm (RGrp k r) st =
     map (\<lambda>st'. MState (prev st') (rest st')
                  ((k, take (length (rest st) - length (rest st')) (rest st)) # caps st'))
         (rm r st)"
| "rm (RBackRef k) st =
     (case map_of (caps st) k of None \<Rightarrow> [st]
      | Some s \<Rightarrow>
          if take (length s) (rest st) = s
          then [MState (if s = [] then prev st else Some (last s)) (drop (length s) (rest st)) (caps st)]
          else [])"
| "rm (RNotAhead c) st =
     (case rest st of [] \<Rightarrow> [st] | x # xs \<Rightarrow> if inCls c x then [] else [st])"
| "rm (RNotBehind c) st =
     (case prev st of None \<Rightarrow> [st] | Some x \<Rightarrow> if inCls c x then [] else [st])"
| "rm RBol st = (if prev st = None then [st] else [])"
| "rm RBolM st =
     (case prev st of None \<Rightarrow> [st] | Some x \<Rightarrow> if x = chLF \<or> x = chCR then [st] else [])"
| "rm REol st = (if rest st = [] then [st] else [])"
  by pat_completeness auto
termination
  by (relation "inv_image (less_than <*lex*> less_than) (\<lambda>(r, st). (size r, length (rest st)))") auto

declare rm.simps [simp del]

lemmas rm_basic = rm.simps(1-4) rm.simps(7-13)

text \<open>A match: where it starts, the matched text, and the groups that took part.\<close>

datatype rmatch = RMatch (mindex: nat) (mfull: string) (mgroups: "(nat \<times> string) list")

definition mgroup :: "rmatch \<Rightarrow> nat \<Rightarrow> string option" where
  "mgroup m k = map_of (mgroups m) k"

text \<open>
  \<open>text.matchAll(r)\<close> for a global expression: the leftmost match from the last index,
  then on from its end (one further when the match is empty), until none is left.
  \<open>matchAllFrom r p s i\<close> scans the text \<open>s\<close> that starts at index \<open>i\<close> after the character \<open>p\<close>.
\<close>

function matchAllFrom :: "re \<Rightarrow> char option \<Rightarrow> string \<Rightarrow> nat \<Rightarrow> rmatch list" where
  "matchAllFrom r p s i =
     (case rm r (MState p s []) of
        [] \<Rightarrow> (case s of [] \<Rightarrow> [] | x # xs \<Rightarrow> matchAllFrom r (Some x) xs (i + 1))
      | st # sts \<Rightarrow>
          (let n = length s - length (rest st) in
           RMatch i (take n s) (caps st) #
             (if n = 0 then (case s of [] \<Rightarrow> [] | x # xs \<Rightarrow> matchAllFrom r (Some x) xs (i + 1))
              else matchAllFrom r (Some (s ! (n - 1))) (drop n s) (i + n))))"
  by pat_completeness auto
termination
  by (relation "measure (\<lambda>(r, p, s, i). length s)") auto

declare matchAllFrom.simps [simp del]

definition matchAll :: "re \<Rightarrow> string \<Rightarrow> rmatch list" where
  "matchAll r s = matchAllFrom r None s 0"

text \<open>\<open>s.match(r)\<close> and \<open>r.test(s)\<close> for an expression that is not global: the first match.\<close>

definition matchFirst :: "re \<Rightarrow> string \<Rightarrow> rmatch option" where
  "matchFirst r s = (case matchAll r s of [] \<Rightarrow> None | m # ms \<Rightarrow> Some m)"

definition rtest :: "re \<Rightarrow> string \<Rightarrow> bool" where
  "rtest r s = (matchFirst r s \<noteq> None)"

definition rePlus :: "re \<Rightarrow> re" where "rePlus r = RSeq r (RStar r)"
definition reLazyPlus :: "re \<Rightarrow> re" where "reLazyPlus r = RSeq r (RLazyStar r)"
definition reOpt :: "re \<Rightarrow> re" where "reOpt r = RAlt r REps"
definition reLit :: "char \<Rightarrow> re" where "reLit c = RCls (OneOf [c])"
definition reNot :: "char list \<Rightarrow> re" where "reNot cs = RCls (NoneOf cs)"
definition reAny :: "char list \<Rightarrow> re" where "reAny cs = RCls (OneOf cs)"

fun reSeqs :: "re list \<Rightarrow> re" where
  "reSeqs [] = REps"
| "reSeqs [r] = r"
| "reSeqs (r # rs) = RSeq r (reSeqs rs)"

text \<open>\<open>.\<close> (any character but a line end), \<open>\s\<close>, \<open>\S\<close>, \<open>\w\<close> and \<open>\r?\n\<close>.\<close>

definition reDot :: re where "reDot = reNot [chLF, chCR]"
definition reSpace :: re where "reSpace = reAny whiteSpace"
definition reNonSpace :: re where "reNonSpace = reNot whiteSpace"
definition reWord :: re where "reWord = reAny wordChars"
definition reEol :: re where "reEol = RSeq (reOpt (reLit chCR)) (reLit chLF)"

section \<open>The patterns of the link scanner\<close>

text \<open>\<open>/^[a-z\-][a-z\-]+:/i\<close>: what createHref takes for the scheme of a URI.\<close>

definition schemeChars :: "char list" where
  "schemeChars = lowerLetters @ upperLetters @ ''-''"

definition uriSchemePattern :: re where
  "uriSchemePattern = reSeqs [RBol, reAny schemeChars, rePlus (reAny schemeChars), reLit CHR '':'']"

text \<open>\<open>angleBracketLinkRe = /^<(.*)>$/\<close>\<close>

definition angleBracketLinkRe :: re where
  "angleBracketLinkRe = reSeqs [RBol, reLit CHR ''<'', RGrp 1 (RStar reDot), reLit CHR ''>'', REol]"

text \<open>A matched pair of square brackets without brackets inside: \<open>\[[^\[\]]*\]\<close>.\<close>

definition reBracketPair :: re where
  "reBracketPair = reSeqs [reLit CHR ''['', RStar (reNot ''[]''), reLit CHR '']'']"

text \<open>A target in angle brackets: \<open><(?:\\[<>]|[^<>])+>\<close>.\<close>

definition reAngleTarget :: re where
  "reAngleTarget =
     reSeqs [reLit CHR ''<'',
             rePlus (RAlt (RSeq (reLit chBackslash) (reAny ''<>'')) (reNot ''<>'')),
             reLit CHR ''>'']"

text \<open>
  \<open>linkPattern\<close>, with the flag g: \<open>[text](link)\<close> or \<open>[text](<link>)\<close>. Group 1 is the text
  with its brackets, group 2 the text before the href, group 3 the href, group 4 the title.
\<close>

definition linkPattern :: re where
  "linkPattern =
     reSeqs [
       RNotBehind (OneOf [chBackslash]),
       RGrp 1 (reSeqs [reOpt (reLit CHR ''!''), reLit CHR ''['',
                       RStar (RAlt (reNot (''[]'' @ [chBackslash]))
                             (RAlt (RSeq (reLit chBackslash) reDot) reBracketPair)),
                       reLit CHR '']'']),
       RGrp 2 (RSeq (reLit CHR ''('') (RStar reSpace)),
       RGrp 3 (RAlt (RSeq (reNot (whiteSpace @ ''()<''))
                          (RStar (RAlt (reNot (whiteSpace @ ''()''))
                                       (reSeqs [reLit CHR ''('', RLazyStar (reNot (whiteSpace @ ''()'')),
                                                reLit CHR '')'']))))
                    reAngleTarget),
       RStar reSpace,
       reOpt (RGrp 4 (RAlt (reSeqs [reLit chDQuote, RStar (reNot [chDQuote]), reLit chDQuote])
                     (RAlt (reSeqs [reLit chSQuote, RStar (reNot [chSQuote]), reLit chSQuote])
                           (reSeqs [reLit CHR ''('', RStar (reNot ''()''), reLit CHR '')''])))),
       RStar reSpace,
       reLit CHR '')'']"

text \<open>
  \<open>referenceLinkPattern\<close>, with the flags gm: \<open>[text][ref]\<close>, \<open>[shorthand]\<close> or
  \<open>[shorthand][]\<close>. Group 1 is the prefix, group 2 the text, group 3 the ref and
  group 4 the shorthand.
\<close>

definition referenceLinkPattern :: re where
  "referenceLinkPattern =
     reSeqs [
       RNotBehind (OneOf ('']'' @ [chBackslash])),
       RAlt
         (reSeqs [
            RGrp 1 (reSeqs [reOpt (reLit CHR ''!''), reLit CHR ''['',
                            RGrp 2 (RStar (RAlt (RSeq (reLit chBackslash) reDot)
                                                (RAlt (reNot (''[]'' @ [chBackslash])) reBracketPair))),
                            reLit CHR '']'', reLit CHR ''['', RStar reSpace]),
            RGrp 3 (RLazyStar (RAlt (reNot (chBackslash # '']'')) (RSeq (reLit chBackslash) reDot))),
            reLit CHR '']''])
         (reSeqs [
            reLit CHR ''['', RNotAhead (OneOf ''!''), RStar reSpace,
            RGrp 4 (reLazyPlus (RAlt (RSeq (reLit chBackslash) reDot) (reNot (''[]'' @ [chBackslash])))),
            RStar reSpace, reLit CHR '']'']),
       RNotAhead (OneOf ''('')]"

text \<open>\<open>autoLinkPattern\<close>, with the flag g: \<open>(?<!\\)<(\w+:[^>\s]+)>\<close> (the source escapes the angle brackets).\<close>

definition autoLinkPattern :: re where
  "autoLinkPattern =
     reSeqs [RNotBehind (OneOf [chBackslash]), reLit CHR ''<'',
             RGrp 1 (reSeqs [rePlus reWord, reLit CHR '':'', rePlus (reNot (CHR ''>'' # whiteSpace))]),
             reLit CHR ''>'']"

text \<open>
  \<open>definitionPattern\<close>, with the flags gm: \<open>[text]: link\<close>. Group 1 runs to the target,
  group 2 is the reference name and group 3 the target.
\<close>

definition definitionPattern :: re where
  "definitionPattern =
     reSeqs [
       RBolM,
       RGrp 1 (reSeqs [RStar (reAny [chTab, CHR '' '']), RNotBehind (OneOf [chBackslash]),
                       reLit CHR ''['', RNotAhead (OneOf ''^''),
                       RGrp 2 (rePlus (RAlt (RSeq (reLit chBackslash) (reLit CHR '']'')) (reNot '']''))),
                       reLit CHR '']'', reLit CHR '':'', RStar (reAny [chTab, CHR '' ''])]),
       RGrp 3 (RAlt (RSeq (reNot ''<'') (RStar reNonSpace)) reAngleTarget)]"

text \<open>
  \<open>inlineCodePattern\<close>, with the flags gm: a run of backticks (group 1), closed by the
  same run, possibly over several lines.
\<close>

definition inlineCodePattern :: re where
  "inlineCodePattern =
     reSeqs [
       RNotBehind (OneOf [chBacktick]),
       RGrp 1 (rePlus (reLit chBacktick)),
       RGrp 2 (reSeqs [RAlt (reLazyPlus reDot)
                            (RSeq (RLazyStar reDot) (RLazyStar (RSeq reEol (reLazyPlus reDot)))),
                       reOpt reEol, RBackRef 1]),
       RNotAhead (OneOf [chBacktick])]"

text \<open>\<open>/^\s*[\-\*\+]\s*\[x\]/i\<close>: the start of a line that holds a ticked checkbox.\<close>

definition checkboxPattern :: re where
  "checkboxPattern =
     reSeqs [RBol, RStar reSpace, reAny ''-*+'', RStar reSpace,
             reLit CHR ''['', reAny ''xX'', reLit CHR '']'']"

text \<open>\<open>/\![\[\(]/\<close>: an image inside the text of a link.\<close>

definition imageInTextPattern :: re where
  "imageInTextPattern = RSeq (reLit CHR ''!'') (reAny ''[('')"

text \<open>\<open>/<\w/\<close>: the text may hold HTML.\<close>

definition htmlTagPattern :: re where
  "htmlTagPattern = RSeq (reLit CHR ''<'') reWord"

section \<open>Links\<close>

text \<open>
  The link records of types/documentLink.ts, as the scanner fills them. \<open>srange\<close> is the
  field \<open>source.range\<close>; \<open>defRef\<close> is the field \<open>ref\<close> (text and range) of a definition.
\<close>

datatype href = External uri | Internal uri string | Reference string

datatype mdLinkKind = Link | Definition | AutoLink

record mdLinkSource =
  hrefText :: string
  hrefPathText :: string
  resource :: uri
  srange :: range
  targetRange :: range
  hrefRange :: range
  hrefFragmentRange :: "range option"
  isAngleBracketLink :: bool
  titleRange :: "range option"

record mdLink =
  kind :: mdLinkKind
  href :: href
  source :: mdLinkSource
  defRef :: "(string \<times> range) option"

text \<open>
  An element of the tree that the HTML parser returns: its tag name (none for the root),
  its attributes, its outer HTML, the offset where it starts, and its child elements.
\<close>

datatype htmlElement =
  HtmlElement (tagName: "string option") (attributes: "(string \<times> string) list")
    (outerHTML: string) (nodeStart: nat) (childNodes: "htmlElement list")

text \<open>
  The collaborators of the link scanner that are not among the source files, as
  parameters: the resolution of an internal path against the workspace
  (\<open>resolveInternalDocumentLink\<close>, nothing when it cannot resolve), \<open>URI.parse\<close> (nothing when
  it throws), \<open>tryDecodeUri\<close>, the HTML parser (nothing when it throws) and the table
  \<open>htmlTagPathAttrs\<close> of the attributes that hold a path, by tag.
\<close>

record linkEnv =
  resolveInternalDocumentLink :: "uri \<Rightarrow> string \<Rightarrow> (uri \<times> string) option"
  uriParse :: "string \<Rightarrow> uri option"
  tryDecodeUri :: "string \<Rightarrow> string"
  htmlParse :: "string \<Rightarrow> htmlElement option"
  htmlTagPathAttrs :: "(string \<times> string list) list"

definition failedToParse :: "string \<Rightarrow> uri \<Rightarrow> string" where
  "failedToParse link sourceDocUri = ''Failed to parse link '' @ link @ '' in '' @ sourceDocUri"

text \<open>
  \<open>createHref\<close> returns the href, or nothing, and the warnings it wrote to the console.
\<close>

definition createHref :: "linkEnv \<Rightarrow> uri \<Rightarrow> string \<Rightarrow> href option \<times> string list" where
  "createHref env sourceDocUri link =
     (if rtest uriSchemePattern link then
        (case uriParse env (tryDecodeUri env link) of
           Some u \<Rightarrow> (Some (External u), [])
         | None \<Rightarrow> (None, [failedToParse link sourceDocUri]))
      else
        (case resolveInternalDocumentLink env sourceDocUri link of
           None \<Rightarrow> (None, [])
         | Some resolved \<Rightarrow> (Some (Internal (fst resolved) (snd resolved)), [])))"

definition stripAngleBrackets :: "string \<Rightarrow> string" where
  "stripAngleBrackets link =
     (case matchFirst angleBracketLinkRe link of
        None \<Rightarrow> link
      | Some m \<Rightarrow> (case mgroup m 1 of None \<Rightarrow> [] | Some inner \<Rightarrow> inner))"

definition getFragmentRange :: "string \<Rightarrow> position \<Rightarrow> position \<Rightarrow> range option" where
  "getFragmentRange text s e =
     (case indexOfChar text CHR ''#'' of
        None \<Rightarrow> None
      | Some i \<Rightarrow> Some (rangeOf (translatePosition s 0 (int i + 1)) e))"

text \<open>\<open>getLinkSourceFragmentInfo\<close>: the fields hrefFragmentRange and hrefPathText.\<close>

definition getLinkSourceFragmentInfo ::
  "textDocument \<Rightarrow> string \<Rightarrow> position \<Rightarrow> position \<Rightarrow> range option \<times> string" where
  "getLinkSourceFragmentInfo doc link linkStart linkEnd =
     (let fragmentRange = getFragmentRange link linkStart linkEnd
      in (fragmentRange,
          getText doc (rangeOf linkStart
            (case fragmentRange of
               Some fr \<Rightarrow> translatePosition (start fr) 0 (- 1)
             | None \<Rightarrow> linkEnd))))"

definition createMdLink ::
  "linkEnv \<Rightarrow> textDocument \<Rightarrow> string \<Rightarrow> string \<Rightarrow> string \<Rightarrow> nat \<Rightarrow> string \<Rightarrow> string option
     \<Rightarrow> mdLink option" where
  "createMdLink env doc targetText preHrefText rawLink matchIndex fullMatch titleMatch =
     (let isAngle = startsWith rawLink ''<'';
          link = stripAngleBrackets rawLink
      in case fst (createHref env (docUri doc) link) of
           None \<Rightarrow> None
         | Some linkTarget \<Rightarrow>
             (let pre = targetText @ preHrefText;
                  linkStartOffset = matchIndex;
                  linkStart = positionAt doc linkStartOffset;
                  linkEnd = positionAt doc (linkStartOffset + length fullMatch);
                  targetStart = positionAt doc (linkStartOffset + length targetText);
                  hrefStartOffset = linkStartOffset + length pre + (if isAngle then 1 else 0);
                  hrefStart = positionAt doc hrefStartOffset;
                  hrefEnd = positionAt doc (hrefStartOffset + length link);
                  title =
                    (case titleMatch of
                       None \<Rightarrow> None
                     | Some t \<Rightarrow>
                         if t = [] then None
                         else (case indexOf fullMatch t of
                                 None \<Rightarrow> None
                               | Some i \<Rightarrow>
                                   Some (rangeOf (positionAt doc (linkStartOffset + i))
                                                 (positionAt doc (linkStartOffset + i + length t)))));
                  info = getLinkSourceFragmentInfo doc link hrefStart hrefEnd
              in Some \<lparr>kind = Link, href = linkTarget,
                       source = \<lparr>hrefText = link, hrefPathText = snd info, resource = docUri doc,
                                 srange = rangeOf linkStart linkEnd,
                                 targetRange = rangeOf targetStart linkEnd,
                                 hrefRange = rangeOf hrefStart hrefEnd,
                                 hrefFragmentRange = fst info,
                                 isAngleBracketLink = isAngle,
                                 titleRange = title\<rparr>,
                       defRef = None\<rparr>))"

section \<open>Ranges without links\<close>

text \<open>A token of the Markdown parser: its type and, for a block, its lines [first, last + 1).\<close>

record token =
  tokenType :: string
  tokenMap :: "(int \<times> int) option"

text \<open>
  \<open>InlineRanges\<close>: a map from a line number to the ranges that cover the line, each range
  registered for every line it covers, in the order of the calls.
\<close>

type_synonym inlineRanges = "(int \<times> range list) list"

definition inlineGet :: "inlineRanges \<Rightarrow> int \<Rightarrow> range list" where
  "inlineGet m l = (case map_of m l of None \<Rightarrow> [] | Some rs \<Rightarrow> rs)"

definition inlineAddLine :: "range \<Rightarrow> inlineRanges \<Rightarrow> int \<Rightarrow> inlineRanges" where
  "inlineAddLine r m l =
     (case map_of m l of
        None \<Rightarrow> m @ [(l, [r])]
      | Some rs \<Rightarrow> map (\<lambda>kv. if fst kv = l then (l, snd kv @ [r]) else kv) m)"

definition inlineAdd :: "inlineRanges \<Rightarrow> range \<Rightarrow> inlineRanges" where
  "inlineAdd m r = foldl (inlineAddLine r) m [line (start r)..line (endp r)]"

definition inlineConcat :: "inlineRanges \<Rightarrow> range list \<Rightarrow> inlineRanges" where
  "inlineConcat m newRanges = foldl inlineAdd m newRanges"

record noLinkRanges =
  multiline :: "(string \<times> int \<times> int) list"
  inline :: inlineRanges

definition computeNoLinkRanges :: "token list \<Rightarrow> textDocument \<Rightarrow> noLinkRanges" where
  "computeNoLinkRanges tokens doc =
     \<lparr>multiline =
        concat (map (\<lambda>t. case tokenMap t of
                            None \<Rightarrow> []
                          | Some mp \<Rightarrow>
                              if tokenType t = ''code_block'' \<or> tokenType t = ''fence'' \<or>
                                 tokenType t = ''html_block''
                              then [(tokenType t, fst mp, snd mp)] else [])
                    tokens),
      inline =
        foldl inlineAdd []
          (map (\<lambda>m. rangeOf (positionAt doc (mindex m))
                              (positionAt doc (mindex m + length (mfull m))))
               (matchAll inlineCodePattern (docText doc)))\<rparr>"

definition noLinkContains :: "noLinkRanges \<Rightarrow> position \<Rightarrow> string \<Rightarrow> bool" where
  "noLinkContains nl pos excludeType =
     (list_ex (\<lambda>b. fst b \<noteq> excludeType \<and> fst (snd b) \<le> line pos \<and> line pos < snd (snd b))
              (multiline nl) \<or>
      list_ex (\<lambda>r. positionInRange r pos) (inlineGet (inline nl) (line pos)))"

definition concatInline :: "noLinkRanges \<Rightarrow> range list \<Rightarrow> noLinkRanges" where
  "concatInline nl rs = \<lparr>multiline = multiline nl, inline = inlineConcat (inline nl) rs\<rparr>"

section \<open>The link computer\<close>

text \<open>The text of a group that takes part in every match of its expression.\<close>

definition mtext :: "rmatch \<Rightarrow> nat \<Rightarrow> string" where
  "mtext m k = (case mgroup m k of None \<Rightarrow> [] | Some s \<Rightarrow> s)"

subsection \<open>Reference links\<close>

definition referenceLink ::
  "textDocument \<Rightarrow> string \<Rightarrow> position \<Rightarrow> nat \<Rightarrow> position \<Rightarrow> position \<Rightarrow> mdLink" where
  "referenceLink doc reference linkStart fullLength hrefStart hrefEnd =
     \<lparr>kind = Link, href = Reference reference,
      source = \<lparr>hrefText = reference, hrefPathText = reference, resource = docUri doc,
                srange = rangeOf linkStart (translatePosition linkStart 0 (int fullLength)),
                targetRange = rangeOf (translatePosition hrefStart 0 (- 1))
                                      (translatePosition hrefEnd 0 1),
                hrefRange = rangeOf hrefStart hrefEnd,
                hrefFragmentRange = None,
                isAngleBracketLink = False,
                titleRange = None\<rparr>,
      defRef = None\<rparr>"

text \<open>
  One turn of the loop of \<open>getReferenceLinksInText\<close>, without the links found in the text of
  a \<open>[text][ref]\<close>: the link that the turn yields for its match, or nothing where the turn
  ends with \<open>continue\<close>. The three branches are \<open>[ref][]\<close> (the ref group is empty),
  \<open>[text][ref]\<close> and the shorthand \<open>[ref]\<close>.
\<close>

definition referenceLinkOfMatch ::
  "textDocument \<Rightarrow> nat \<Rightarrow> noLinkRanges \<Rightarrow> rmatch \<Rightarrow> mdLink option" where
  "referenceLinkOfMatch doc startingOffset nl m =
     (let linkStartOffset = startingOffset + mindex m;
          linkStart = positionAt doc linkStartOffset
      in if noLinkContains nl linkStart [] then None
         else
           (case mgroup m 3 of
              Some r \<Rightarrow>
                if r = [] then
                  (let reference = trim (mtext m 2)
                   in if reference = [] then None
                      else
                        (let offset = linkStartOffset + 1
                         in Some (referenceLink doc reference linkStart (length (mfull m))
                                    (positionAt doc offset)
                                    (positionAt doc (offset + length reference)))))
                else
                  (if mtext m 2 = [] \<and> \<not> startsWith (mfull m) ''!'' then None
                   else
                     (let offset = linkStartOffset + length (mtext m 1)
                      in Some (referenceLink doc r linkStart (length (mfull m))
                                 (positionAt doc offset)
                                 (positionAt doc (offset + length r)))))
            | None \<Rightarrow>
                (case mgroup m 4 of
                   None \<Rightarrow> None
                 | Some shorthand \<Rightarrow>
                     if shorthand = [] then None
                     else
                       (let reference = trim shorthand
                        in if reference = [] then None
                           else
                             (let offset = linkStartOffset + 1;
                                  hrefStart = positionAt doc offset;
                                  lineText = getLine doc (line hrefStart)
                              in if character linkStart = 0 \<and>
                                    length (mfull m) < length lineText \<and>
                                    lineText ! length (mfull m) = CHR '':''
                                 then None
                                 else
                                   (case matchFirst checkboxPattern lineText of
                                      Some checkboxMatch \<Rightarrow>
                                        if character hrefStart \<le> int (length (mfull checkboxMatch))
                                        then None
                                        else Some (referenceLink doc reference linkStart
                                                     (length (mfull m)) hrefStart
                                                     (positionAt doc (offset + length reference)))
                                    | None \<Rightarrow>
                                        Some (referenceLink doc reference linkStart
                                                (length (mfull m)) hrefStart
                                                (positionAt doc (offset + length reference)))))))))"

text \<open>
  The turn for a \<open>[text][ref]\<close> that is not an image also scans the text (group 2) for
  reference links, and yields them before its own link.
\<close>

definition scansLinkText :: "rmatch \<Rightarrow> bool" where
  "scansLinkText m =
     (case mgroup m 3 of None \<Rightarrow> False | Some r \<Rightarrow> r \<noteq> [] \<and> \<not> startsWith (mfull m) ''!'')"

subsection \<open>The matcher consumes text, and a group holds what it consumed\<close>

lemma rm_mono: "st' \<in> set (rm r st) \<Longrightarrow> length (rest st') \<le> length (rest st)"
proof (induction r st arbitrary: st' rule: rm.induct)
  case (2 c st)
  then show ?case by (cases "rest st") (auto simp: rm_basic split: if_splits)
next
  case (3 a b st)
  from "3.prems" obtain s1 where "s1 \<in> set (rm a st)" "st' \<in> set (rm b s1)"
    by (auto simp: rm_basic)
  with "3.IH" show ?case by fastforce
next
  case (5 r st)
  from "5.prems" show ?case
    by (subst (asm) rm.simps) (auto split: if_splits dest!: "5.IH"(2))
next
  case (6 r st)
  from "6.prems" show ?case
    by (subst (asm) rm.simps) (auto split: if_splits dest!: "6.IH"(2))
next
  case (7 k r st)
  then show ?case by (auto simp: rm_basic)
next
  case (9 c st)
  then show ?case by (cases "rest st") (auto simp: rm_basic split: if_splits)
qed (auto simp: rm_basic split: if_splits option.splits)

lemma map_of_filter_other:
  "k \<notin> S \<Longrightarrow> map_of (filter (\<lambda>kv. fst kv \<notin> S) xs) k = map_of xs k"
  by (induction xs) auto

lemma caps_resetCaps_other:
  "k \<notin> set (groupsOf r) \<Longrightarrow> map_of (caps (resetCaps r st)) k = map_of (caps st) k"
  by (simp add: resetCaps_def map_of_filter_other)

lemma rm_caps_other:
  "st' \<in> set (rm r st) \<Longrightarrow> k \<notin> set (groupsOf r) \<Longrightarrow> map_of (caps st') k = map_of (caps st) k"
proof (induction r st arbitrary: st' rule: rm.induct)
  case (2 c st)
  then show ?case by (cases "rest st") (auto simp: rm_basic split: if_splits)
next
  case (3 a b st)
  from "3.prems" obtain s1 where "s1 \<in> set (rm a st)" "st' \<in> set (rm b s1)"
    by (auto simp: rm_basic)
  with "3.IH" "3.prems"(2) show ?case by fastforce
next
  case (4 a b st)
  then show ?case by (auto simp: rm_basic)
next
  case (5 r st)
  from "5.prems"(1) consider "st' = st"
    | s1 where "s1 \<in> set (rm r (resetCaps r st))" "length (rest s1) < length (rest st)"
        "st' \<in> set (rm (RStar r) s1)"
    by (subst (asm) rm.simps) (auto split: if_splits)
  then show ?case
  proof cases
    case 1 then show ?thesis by simp
  next
    case 2
    have "map_of (caps st') k = map_of (caps s1) k"
      using "5.IH"(2)[OF 2(1,2,3)] "5.prems"(2) by simp
    also have "\<dots> = map_of (caps (resetCaps r st)) k"
      using "5.IH"(1)[OF 2(1)] "5.prems"(2) by simp
    finally show ?thesis using "5.prems"(2) by (simp add: caps_resetCaps_other)
  qed
next
  case (6 r st)
  from "6.prems"(1) consider "st' = st"
    | s1 where "s1 \<in> set (rm r (resetCaps r st))" "length (rest s1) < length (rest st)"
        "st' \<in> set (rm (RLazyStar r) s1)"
    by (subst (asm) rm.simps) (auto split: if_splits)
  then show ?case
  proof cases
    case 1 then show ?thesis by simp
  next
    case 2
    have "map_of (caps st') k = map_of (caps s1) k"
      using "6.IH"(2)[OF 2(1,2,3)] "6.prems"(2) by simp
    also have "\<dots> = map_of (caps (resetCaps r st)) k"
      using "6.IH"(1)[OF 2(1)] "6.prems"(2) by simp
    finally show ?thesis using "6.prems"(2) by (simp add: caps_resetCaps_other)
  qed
next
  case (7 j r st)
  then show ?case by (auto simp: rm_basic)
next
  case (9 c st)
  then show ?case by (cases "rest st") (auto simp: rm_basic split: if_splits)
qed (auto simp: rm_basic split: if_splits option.splits)

lemma rm_seq_elem:
  "st' \<in> set (rm (RSeq a b) st) \<longleftrightarrow> (\<exists>s1 \<in> set (rm a st). st' \<in> set (rm b s1))"
  by (auto simp: rm_basic)

lemma rm_alt_elem:
  "st' \<in> set (rm (RAlt a b) st) \<longleftrightarrow> st' \<in> set (rm a st) \<or> st' \<in> set (rm b st)"
  by (auto simp: rm_basic)

lemma rm_grp_elem:
  "st' \<in> set (rm (RGrp k r) st) \<longleftrightarrow>
     (\<exists>s1 \<in> set (rm r st). st' = MState (prev s1) (rest s1)
        ((k, take (length (rest st) - length (rest s1)) (rest st)) # caps s1))"
  by (auto simp: rm_basic)

lemma rm_cls_elem:
  "st' \<in> set (rm (RCls c) st) \<Longrightarrow> length (rest st') < length (rest st) \<and> caps st' = caps st"
  by (cases "rest st") (auto simp: rm_basic split: if_splits)

text \<open>The text of a reference link (group 2) is shorter than the scanned text.\<close>

lemma referenceLinkPattern_text_shorter:
  assumes "st \<in> set (rm referenceLinkPattern (MState p s []))"
  shows "length (case map_of (caps st) 2 of None \<Rightarrow> [] | Some t \<Rightarrow> t) < length s"
proof -
  define T where "T = RStar (RAlt (RSeq (reLit chBackslash) reDot)
                                  (RAlt (reNot (''[]'' @ [chBackslash])) reBracketPair))"
  define R2 where "R2 = RSeq (reLit CHR '']'') (RSeq (reLit CHR ''['') (RStar reSpace))"
  define P where "P = RSeq (reOpt (reLit CHR ''!'')) (RSeq (RCls (OneOf ''['')) (RSeq (RGrp 2 T) R2))"
  define G3 where "G3 = RSeq (RGrp 3 (RLazyStar (RAlt (reNot (chBackslash # '']''))
                                                       (RSeq (reLit chBackslash) reDot))))
                         (reLit CHR '']'')"
  define A where "A = RSeq (RGrp 1 P) G3"
  define B where "B = reSeqs [
            reLit CHR ''['', RNotAhead (OneOf ''!''), RStar reSpace,
            RGrp 4 (reLazyPlus (RAlt (RSeq (reLit chBackslash) reDot) (reNot (''[]'' @ [chBackslash])))),
            RStar reSpace, reLit CHR '']'']"
  define NA where "NA = RNotAhead (OneOf ''('')"
  have pat: "referenceLinkPattern = RSeq (RNotBehind (OneOf ('']'' @ [chBackslash]))) (RSeq (RAlt A B) NA)"
    by (simp add: referenceLinkPattern_def A_def B_def NA_def P_def T_def R2_def G3_def reLit_def)
  have gB: "2 \<notin> set (groupsOf B)"
    by (simp add: B_def reLit_def reLazyPlus_def reDot_def reNot_def reSpace_def reAny_def)
  have gR2: "2 \<notin> set (groupsOf R2)"
    by (simp add: R2_def reLit_def reSpace_def reAny_def)
  have gNA: "2 \<notin> set (groupsOf NA)" by (simp add: NA_def)
  have g3: "2 \<notin> set (groupsOf G3)"
    by (simp add: G3_def reLit_def reDot_def reNot_def)
  let ?st0 = "MState p s []"
  from assms(1) obtain s1 s2 where s1: "s1 \<in> set (rm (RNotBehind (OneOf ('']'' @ [chBackslash]))) ?st0)"
    and s2: "s2 \<in> set (rm (RAlt A B) s1)" and st: "st \<in> set (rm NA s2)"
    unfolding pat rm_seq_elem by blast
  from s1 have s1eq: "s1 = ?st0" by (auto simp: rm_basic split: option.splits if_splits)
  have c2: "map_of (caps s2) 2 = map_of (caps st) 2"
    using rm_caps_other[OF st gNA] by simp
  from s2 have "s2 \<in> set (rm A ?st0) \<or> s2 \<in> set (rm B ?st0)"
    unfolding s1eq rm_alt_elem .
  then show ?thesis
  proof
    assume b: "s2 \<in> set (rm B ?st0)"
    then obtain s' where "s' \<in> set (rm (RCls (OneOf ''['')) ?st0)"
      unfolding B_def reSeqs.simps rm_seq_elem reLit_def by blast
    from rm_cls_elem[OF this] have "0 < length s" by (cases s) simp_all
    with rm_caps_other[OF b gB] c2 show ?thesis by simp
  next
    assume "s2 \<in> set (rm A ?st0)"
    then obtain s3 where s3: "s3 \<in> set (rm (RGrp 1 P) ?st0)"
      and s23: "s2 \<in> set (rm G3 s3)"
      unfolding A_def rm_seq_elem by blast
    have c3: "map_of (caps s3) 2 = map_of (caps st) 2"
      using rm_caps_other[OF s23 g3] c2 by simp
    from s3 obtain s3' where s3': "s3' \<in> set (rm P ?st0)"
      and c3': "map_of (caps s3') 2 = map_of (caps st) 2"
      using c3 unfolding rm_grp_elem by auto
    from s3' obtain s4 s5 s6 where s4: "s4 \<in> set (rm (reOpt (reLit CHR ''!'')) ?st0)"
      and s5: "s5 \<in> set (rm (RCls (OneOf ''['')) s4)"
      and s6: "s6 \<in> set (rm (RGrp 2 T) s5)"
      and s7: "s3' \<in> set (rm R2 s6)"
      unfolding P_def rm_seq_elem by blast
    have c6: "map_of (caps s6) 2 = map_of (caps st) 2"
      using rm_caps_other[OF s7 gR2] c3' by simp
    from s6 obtain n where "map_of (caps s6) 2 = Some (take n (rest s5))"
      unfolding rm_grp_elem by auto
    with c6 have "length (case map_of (caps st) 2 of None \<Rightarrow> [] | Some t \<Rightarrow> t) \<le> length (rest s5)"
      by (cases "map_of (caps st) 2") auto
    moreover from rm_cls_elem[OF s5] have "length (rest s5) < length (rest s4)" by simp
    moreover from rm_mono[OF s4] have "length (rest s4) \<le> length s" by simp
    ultimately show ?thesis by simp
  qed
qed

text \<open>Every match of a scan comes from a run of the matcher on a suffix of the text.\<close>

lemma matchAllFrom_elem:
  "m \<in> set (matchAllFrom r p s i) \<Longrightarrow>
     \<exists>p' s' st. length s' \<le> length s \<and> st \<in> set (rm r (MState p' s' [])) \<and> mgroups m = caps st"
proof (induction r p s i rule: matchAllFrom.induct)
  case (1 r p s i)
  show ?case
  proof (cases "rm r (MState p s [])")
    case Nil
    show ?thesis
    proof (cases s)
      case Nil
      with \<open>rm r (MState p s []) = []\<close> "1.prems" show ?thesis
        by (subst (asm) matchAllFrom.simps) simp
    next
      case (Cons x xs)
      with \<open>rm r (MState p s []) = []\<close> "1.prems" have "m \<in> set (matchAllFrom r (Some x) xs (i + 1))"
        by (subst (asm) matchAllFrom.simps) simp
      from "1.IH"(1)[OF \<open>rm r (MState p s []) = []\<close> Cons this] Cons show ?thesis
        by (auto intro: le_SucI)
    qed
  next
    case (Cons st sts)
    define n where "n = length s - length (rest st)"
    from "1.prems" Cons have
      "m = RMatch i (take n s) (caps st) \<or>
       (n = 0 \<and> (\<exists>x xs. s = x # xs \<and> m \<in> set (matchAllFrom r (Some x) xs (i + 1)))) \<or>
       (n \<noteq> 0 \<and> m \<in> set (matchAllFrom r (Some (s ! (n - 1))) (drop n s) (i + n)))"
      by (subst (asm) matchAllFrom.simps) (auto simp: Let_def n_def split: list.splits if_splits)
    then show ?thesis
    proof (elim disjE conjE exE)
      assume "m = RMatch i (take n s) (caps st)"
      with Cons show ?thesis by (intro exI[of _ p] exI[of _ s] exI[of _ st]) simp
    next
      fix x xs assume a: "n = 0" "s = x # xs" "m \<in> set (matchAllFrom r (Some x) xs (i + 1))"
      from "1.IH"(2)[OF Cons n_def a(1) a(2) a(3)] a(2) show ?thesis
        by (auto intro: le_SucI)
    next
      assume a: "n \<noteq> 0" "m \<in> set (matchAllFrom r (Some (s ! (n - 1))) (drop n s) (i + n))"
      from "1.IH"(3)[OF Cons n_def a(1) a(2)]
      obtain p' s' st' where h: "length s' \<le> length (drop n s)"
        "st' \<in> set (rm r (MState p' s' []))" "mgroups m = caps st'" by blast
      from h(1) have "length s' \<le> length s" by simp
      with h(2,3) show ?thesis by blast
    qed
  qed
qed

lemma referenceLinkPattern_match_text_shorter:
  assumes "m \<in> set (matchAll referenceLinkPattern text)"
  shows "length (mtext m 2) < length text"
proof -
  from matchAllFrom_elem[OF assms[unfolded matchAll_def]]
  obtain p' s' st where h: "length s' \<le> length text"
    "st \<in> set (rm referenceLinkPattern (MState p' s' []))" "mgroups m = caps st" by blast
  from referenceLinkPattern_text_shorter[OF h(2)] h(1,3) show ?thesis
    by (simp add: mtext_def mgroup_def)
qed

subsection \<open>The passes of the scanner\<close>

function getReferenceLinksInText ::
  "textDocument \<Rightarrow> string \<Rightarrow> nat \<Rightarrow> noLinkRanges \<Rightarrow> mdLink list" where
  "getReferenceLinksInText doc text startingOffset nl =
     concat (map (\<lambda>m. case referenceLinkOfMatch doc startingOffset nl m of
                         None \<Rightarrow> []
                       | Some l \<Rightarrow>
                           (if scansLinkText m
                            then getReferenceLinksInText doc (mtext m 2)
                                   (startingOffset + mindex m + 1) nl
                            else []) @ [l])
                 (matchAll referenceLinkPattern text))"
  by pat_completeness auto
termination
  by (relation "measure (\<lambda>(doc, text, off, nl). length text)")
     (auto simp: referenceLinkPattern_match_text_shorter)

declare getReferenceLinksInText.simps [simp del]

definition getReferenceLinks :: "textDocument \<Rightarrow> noLinkRanges \<Rightarrow> mdLink list" where
  "getReferenceLinks doc nl = getReferenceLinksInText doc (docText doc) 0 nl"

definition innerLinkOfMatch :: "linkEnv \<Rightarrow> textDocument \<Rightarrow> nat \<Rightarrow> rmatch \<Rightarrow> mdLink list" where
  "innerLinkOfMatch env doc startOffset innerMatch =
     (case createMdLink env doc (mtext innerMatch 1) (mtext innerMatch 2) (mtext innerMatch 3)
             (startOffset + mindex innerMatch) (mfull innerMatch) (mgroup innerMatch 4) of
        None \<Rightarrow> []
      | Some innerData \<Rightarrow> [innerData])"

definition inlineLinksOfMatch ::
  "linkEnv \<Rightarrow> textDocument \<Rightarrow> noLinkRanges \<Rightarrow> rmatch \<Rightarrow> mdLink list" where
  "inlineLinksOfMatch env doc nl m =
     (let linkTextIncludingBrackets = mtext m 1
      in case createMdLink env doc linkTextIncludingBrackets (mtext m 2) (mtext m 3)
                (mindex m) (mfull m) (mgroup m 4) of
           None \<Rightarrow> []
         | Some matchLinkData \<Rightarrow>
             if noLinkContains nl (start (hrefRange (source matchLinkData))) [] then []
             else
               matchLinkData #
                 (if rtest imageInTextPattern linkTextIncludingBrackets then
                    (let linkText = butlast (tl linkTextIncludingBrackets);
                         startOffset = mindex m + 1
                     in concat (map (innerLinkOfMatch env doc startOffset)
                                    (matchAll linkPattern linkText)) @
                        getReferenceLinksInText doc linkText startOffset nl)
                  else []))"

definition getInlineLinks :: "linkEnv \<Rightarrow> textDocument \<Rightarrow> noLinkRanges \<Rightarrow> mdLink list" where
  "getInlineLinks env doc nl =
     concat (map (inlineLinksOfMatch env doc nl) (matchAll linkPattern (docText doc)))"

definition autoLinkOfMatch ::
  "linkEnv \<Rightarrow> textDocument \<Rightarrow> noLinkRanges \<Rightarrow> rmatch \<Rightarrow> mdLink list" where
  "autoLinkOfMatch env doc nl m =
     (let linkOffset = mindex m;
          linkStart = positionAt doc linkOffset
      in if noLinkContains nl linkStart [] then []
         else
           (let link = mtext m 1
            in case fst (createHref env (docUri doc) link) of
                 Some (External u) \<Rightarrow>
                   (let linkEnd = translatePosition linkStart 0 (int (length (mfull m)));
                        hrefStart = translatePosition linkStart 0 1;
                        hrefEnd = translatePosition hrefStart 0 (int (length link));
                        info = getLinkSourceFragmentInfo doc link hrefStart hrefEnd
                    in [\<lparr>kind = AutoLink, href = External u,
                          source = \<lparr>hrefText = link, hrefPathText = snd info,
                                    resource = docUri doc,
                                    srange = rangeOf linkStart linkEnd,
                                    targetRange = rangeOf hrefStart hrefEnd,
                                    hrefRange = rangeOf hrefStart hrefEnd,
                                    hrefFragmentRange = fst info,
                                    isAngleBracketLink = False,
                                    titleRange = None\<rparr>,
                          defRef = None\<rparr>])
               | _ \<Rightarrow> []))"

definition getAutoLinks :: "linkEnv \<Rightarrow> textDocument \<Rightarrow> noLinkRanges \<Rightarrow> mdLink list" where
  "getAutoLinks env doc nl =
     concat (map (autoLinkOfMatch env doc nl) (matchAll autoLinkPattern (docText doc)))"

definition definitionOfMatch ::
  "linkEnv \<Rightarrow> textDocument \<Rightarrow> noLinkRanges \<Rightarrow> rmatch \<Rightarrow> mdLink list" where
  "definitionOfMatch env doc nl m =
     (let offset = mindex m;
          linkStart = positionAt doc offset
      in if noLinkContains nl linkStart [] then []
         else
           (let pre = mtext m 1;
                reference = mtext m 2;
                rawLinkText = trim (mtext m 3);
                isAngle = rtest angleBracketLinkRe rawLinkText;
                linkText = stripAngleBrackets rawLinkText
            in case fst (createHref env (docUri doc) linkText) of
                 None \<Rightarrow> []
               | Some target \<Rightarrow>
                   (let hrefStart = translatePosition linkStart 0
                                      (int (length pre) + (if isAngle then 1 else 0));
                        hrefEnd = translatePosition hrefStart 0 (int (length linkText));
                        refStart = translatePosition linkStart 0 1;
                        refRange = rangeOf refStart
                                     (translatePosition refStart 0 (int (length reference)));
                        lineText = getLine doc (line linkStart);
                        linkEnd = translatePosition linkStart 0 (int (length lineText));
                        info = getLinkSourceFragmentInfo doc rawLinkText hrefStart hrefEnd
                    in [\<lparr>kind = Definition, href = target,
                          source = \<lparr>hrefText = linkText, hrefPathText = snd info,
                                    resource = docUri doc,
                                    srange = rangeOf linkStart linkEnd,
                                    targetRange = rangeOf hrefStart hrefEnd,
                                    hrefRange = rangeOf hrefStart hrefEnd,
                                    hrefFragmentRange = fst info,
                                    isAngleBracketLink = isAngle,
                                    titleRange = None\<rparr>,
                          defRef = Some (reference, refRange)\<rparr>])))"

definition getLinkDefinitions :: "linkEnv \<Rightarrow> textDocument \<Rightarrow> noLinkRanges \<Rightarrow> mdLink list" where
  "getLinkDefinitions env doc nl =
     concat (map (definitionOfMatch env doc nl) (matchAll definitionPattern (docText doc)))"

text \<open>
  The expression that \<open>linkAttrsByTag\<close> builds for an attribute, with the flag i: the
  attribute name, \<open>=\<close> and a quote (group 1), the value (group 2) and a quote.
\<close>

definition caseInsensitive :: "char \<Rightarrow> re" where
  "caseInsensitive c =
     (case map_of (zip lowerLetters upperLetters) c of
        Some u \<Rightarrow> reAny [c, u]
      | None \<Rightarrow>
          (case map_of (zip upperLetters lowerLetters) c of
             Some l \<Rightarrow> reAny [c, l]
           | None \<Rightarrow> reLit c))"

definition attrPattern :: "string \<Rightarrow> re" where
  "attrPattern attr =
     reSeqs [RGrp 1 (reSeqs (map caseInsensitive attr @ [reLit CHR ''='', reAny [chDQuote, chSQuote]])),
             RGrp 2 (RStar (reNot [chSQuote, chDQuote])),
             reAny [chDQuote, chSQuote]]"

definition htmlLinkOfAttr ::
  "linkEnv \<Rightarrow> textDocument \<Rightarrow> noLinkRanges \<Rightarrow> htmlElement \<Rightarrow> string \<Rightarrow> mdLink list" where
  "htmlLinkOfAttr env doc nl node attr =
     (case map_of (attributes node) attr of
        None \<Rightarrow> []
      | Some link \<Rightarrow>
          if link = [] then []
          else
            (case matchFirst (attrPattern attr) (outerHTML node) of
               None \<Rightarrow> []
             | Some attrMatch \<Rightarrow>
                 (case fst (createHref env (docUri doc) link) of
                    None \<Rightarrow> []
                  | Some linkTarget \<Rightarrow>
                      (let linkStart = positionAt doc (nodeStart node + mindex attrMatch +
                                                       length (mtext attrMatch 1))
                       in if noLinkContains nl linkStart ''html_block'' then []
                          else
                            (let linkEnd = translatePosition linkStart 0
                                             (int (length (mtext attrMatch 2)));
                                 info = getLinkSourceFragmentInfo doc link linkStart linkEnd
                             in [\<lparr>kind = Link, href = linkTarget,
                                   source = \<lparr>hrefText = link, hrefPathText = snd info,
                                             resource = docUri doc,
                                             srange = rangeOf linkStart linkEnd,
                                             targetRange = rangeOf linkStart linkEnd,
                                             hrefRange = rangeOf linkStart linkEnd,
                                             hrefFragmentRange = fst info,
                                             isAngleBracketLink = False,
                                             titleRange = None\<rparr>,
                                   defRef = None\<rparr>])))))"

fun getHtmlLinksFromNode ::
  "linkEnv \<Rightarrow> textDocument \<Rightarrow> noLinkRanges \<Rightarrow> htmlElement \<Rightarrow> mdLink list" where
  "getHtmlLinksFromNode env doc nl (HtmlElement tag attrs outer st children) =
     (case tag of
        None \<Rightarrow> []
      | Some t \<Rightarrow>
          (case map_of (htmlTagPathAttrs env) t of
             None \<Rightarrow> []
           | Some pathAttrs \<Rightarrow>
               concat (map (htmlLinkOfAttr env doc nl (HtmlElement tag attrs outer st children))
                           pathAttrs))) @
     concat (map (getHtmlLinksFromNode env doc nl) children)"

definition getHtmlLinks :: "linkEnv \<Rightarrow> textDocument \<Rightarrow> noLinkRanges \<Rightarrow> mdLink list" where
  "getHtmlLinks env doc nl =
     (if \<not> rtest htmlTagPattern (docText doc) then []
      else (case htmlParse env (docText doc) of
              None \<Rightarrow> []
            | Some tree \<Rightarrow> getHtmlLinksFromNode env doc nl tree))"

text \<open>
  \<open>getAllLinks\<close>: the tokens are those of the parser for the document; \<open>cancelled\<close> tells
  whether the cancellation token was set by the time the parser returned.
\<close>

definition getAllLinks :: "linkEnv \<Rightarrow> token list \<Rightarrow> bool \<Rightarrow> textDocument \<Rightarrow> mdLink list" where
  "getAllLinks env tokens cancelled doc =
     (if cancelled then []
      else
        (let nl = computeNoLinkRanges tokens doc;
             inlineLinks = getInlineLinks env doc nl
         in inlineLinks @
            getReferenceLinks doc (concatInline nl (map (\<lambda>x. srange (source x)) inlineLinks)) @
            getLinkDefinitions env doc nl @
            getAutoLinks env doc nl @
            getHtmlLinks env doc nl))"

section \<open>An environment for the examples\<close>

text \<open>
  Modelled from the spec: the resolution of internal links against the workspace
  (util/mdLinks.ts) is not among the source files. The text is split at the first
  \<open>#\<close> into a path and a fragment; an empty path is the source document itself, an
  absolute path is taken from the workspace root, and every other path is joined to the
  directory of the source document. The examples use it with a URI parser that rejects a
  scheme starting with a hyphen, as the URI library does, and without HTML.
\<close>

definition dirname :: "uri \<Rightarrow> uri" where
  "dirname u = rev (dropWhile (\<lambda>c. c \<noteq> CHR ''/'') (rev u))"

definition specResolveLink :: "uri \<Rightarrow> uri \<Rightarrow> string \<Rightarrow> (uri \<times> string) option" where
  "specResolveLink root sourceDocUri link =
     (let path = takeWhile (\<lambda>c. c \<noteq> CHR ''#'') link;
          fragment = drop (length path + 1) link
      in if path = [] then Some (sourceDocUri, fragment)
         else if hd path = CHR ''/'' then Some (root @ path, fragment)
         else Some (dirname sourceDocUri @ path, fragment))"

definition exampleEnv :: linkEnv where
  "exampleEnv =
     \<lparr>resolveInternalDocumentLink = specResolveLink ''/workspace'',
      uriParse = (\<lambda>s. if startsWith s ''-'' then None else Some s),
      tryDecodeUri = (\<lambda>s. s),
      htmlParse = (\<lambda>s. None),
      htmlTagPathAttrs = []\<rparr>"

definition exampleDoc :: "string \<Rightarrow> textDocument" where
  "exampleDoc t = \<lparr>docUri = ''/workspace/test.md'', docVersion = 1, docText = t\<rparr>"

text \<open>The tokens of a document that is one paragraph of \<open>n\<close> lines.\<close>

definition paragraphTokens :: "int \<Rightarrow> token list" where
  "paragraphTokens n =
     [\<lparr>tokenType = ''paragraph_open'', tokenMap = Some (0, n)\<rparr>,
      \<lparr>tokenType = ''inline'', tokenMap = Some (0, n)\<rparr>,
      \<lparr>tokenType = ''paragraph_close'', tokenMap = None\<rparr>]"

text \<open>\<open>joinLines\<close> of the tests: the lines, separated by line feeds.\<close>

definition joinLines :: "string list \<Rightarrow> string" where
  "joinLines ls = (case ls of [] \<Rightarrow> [] | _ \<Rightarrow> concat (map (\<lambda>l. l @ [chLF]) (butlast ls)) @ last ls)"

section \<open>The classification of hrefs\<close>

text \<open>
  What the specification calls a URI-scheme prefix: two or more letters or hyphens,
  followed by a colon.
\<close>

definition hasUriScheme :: "string \<Rightarrow> bool" where
  "hasUriScheme link =
     (\<exists>s t. link = s @ CHR '':'' # t \<and> 2 \<le> length s \<and> list_all (\<lambda>c. c \<in> set schemeChars) s)"

lemma rm_star_cls_nil: "rm (RStar (RCls c)) (MState p [] cs) = [MState p [] cs]"
  by (subst rm.simps) (simp add: resetCaps_def rm_basic)

lemma rm_star_cls_cons:
  "rm (RStar (RCls c)) (MState p (x # xs) cs) =
     (if inCls c x then rm (RStar (RCls c)) (MState (Some x) xs cs) @ [MState p (x # xs) cs]
      else [MState p (x # xs) cs])"
  by (subst rm.simps) (simp add: resetCaps_def rm_basic)

lemma ex_nth_cons:
  "(\<exists>k < length (x # xs). (\<forall>j < k. P ((x # xs) ! j)) \<and> (x # xs) ! k = d) \<longleftrightarrow>
        (x = d \<or> (P x \<and> (\<exists>k < length xs. (\<forall>j < k. P (xs ! j)) \<and> xs ! k = d)))"
    (is "?L \<longleftrightarrow> ?R")
proof
  assume ?L
  then obtain k where k: "k < length (x # xs)" "\<forall>j < k. P ((x # xs) ! j)" "(x # xs) ! k = d" by blast
  show ?R
  proof (cases k)
    case 0 with k show ?thesis by simp
  next
    case (Suc k')
    with k have "P x" by auto
    moreover from k Suc have "k' < length xs" "xs ! k' = d" by auto
    moreover from k Suc have "\<forall>j < k'. P (xs ! j)" by auto
    ultimately show ?thesis by blast
  qed
next
  assume ?R
  then show ?L
  proof
    assume "x = d" then show ?L by (intro exI[of _ 0]) simp
  next
    assume a: "P x \<and> (\<exists>k < length xs. (\<forall>j < k. P (xs ! j)) \<and> xs ! k = d)"
    then obtain k where k: "k < length xs" "\<forall>j < k. P (xs ! j)" "xs ! k = d" by blast
    have "\<forall>j < Suc k. P ((x # xs) ! j)"
      using a k by (auto simp: nth_Cons split: nat.splits)
    with k show ?L by (intro exI[of _ "Suc k"]) simp
  qed
qed

text \<open>A greedy run over a class, followed by one character: the character stands after a
  prefix that lies in the class.\<close>

lemma rm_star_cls_lit:
  "(\<exists>st \<in> set (rm (RStar (RCls c)) (MState p s cs)). rm (reLit d) st \<noteq> []) \<longleftrightarrow>
   (\<exists>k < length s. (\<forall>j < k. inCls c (s ! j)) \<and> s ! k = d)"
proof (induction s arbitrary: p)
  case Nil
  then show ?case by (simp add: rm_star_cls_nil reLit_def rm_basic)
next
  case (Cons x xs)
  show ?case
    unfolding ex_nth_cons rm_star_cls_cons using Cons.IH[of "Some x"]
    by (auto simp: reLit_def rm_basic)
qed

lemma rm_bol_some: "rm (RSeq RBol r) (MState (Some x) s cs) = []"
  by (simp add: rm_basic)

lemma rm_bol_none: "rm (RSeq RBol r) (MState None s cs) = rm r (MState None s cs)"
  by (simp add: rm_basic)

text \<open>An expression anchored at the start of the text matches at index 0 or nowhere.\<close>

lemma matchAllFrom_anchored: "matchAllFrom (RSeq RBol r) (Some x) s i = []"
proof (induction s arbitrary: x i)
  case Nil
  show ?case by (subst matchAllFrom.simps) (simp add: rm_bol_some)
next
  case (Cons y ys)
  show ?case by (subst matchAllFrom.simps) (simp add: rm_bol_some Cons.IH)
qed

lemma rtest_anchored: "rtest (RSeq RBol r) s \<longleftrightarrow> rm r (MState None s []) \<noteq> []"
proof (cases "rm r (MState None s [])")
  case Nil
  then show ?thesis
    by (cases s)
       (simp_all add: rtest_def matchFirst_def matchAll_def matchAllFrom.simps[of _ None]
          rm_bol_none matchAllFrom_anchored)
next
  case (Cons st sts)
  then show ?thesis
    by (simp add: rtest_def matchFirst_def matchAll_def matchAllFrom.simps[of _ None]
          rm_bol_none Let_def)
qed

lemma concat_map_ne: "concat (map f xs) \<noteq> [] \<longleftrightarrow> (\<exists>x \<in> set xs. f x \<noteq> [])"
  by (induction xs) auto

lemma rtest_uriSchemePattern: "rtest uriSchemePattern link \<longleftrightarrow> hasUriScheme link"
proof -
  let ?A = "OneOf schemeChars"
  have pat: "uriSchemePattern =
      RSeq RBol (RSeq (RCls ?A) (RSeq (RSeq (RCls ?A) (RStar (RCls ?A))) (reLit CHR '':'')))"
    by (simp add: uriSchemePattern_def rePlus_def reAny_def)
  have tail: "\<And>p s. (concat (map (rm (reLit CHR '':'')) (rm (RStar (RCls ?A)) (MState p s []))) \<noteq> []) \<longleftrightarrow>
      (\<exists>k < length s. (\<forall>j < k. s ! j \<in> set schemeChars) \<and> s ! k = CHR '':'')"
    using rm_star_cls_lit[of ?A _ _ "[]" "CHR '':''"] by (simp add: concat_map_ne)
  have step: "rtest uriSchemePattern link \<longleftrightarrow>
     (\<exists>c1 c2 s2. link = c1 # c2 # s2 \<and> c1 \<in> set schemeChars \<and> c2 \<in> set schemeChars \<and>
        (\<exists>k < length s2. (\<forall>j < k. s2 ! j \<in> set schemeChars) \<and> s2 ! k = CHR '':''))"
  proof (cases link)
    case Nil
    then show ?thesis by (simp add: pat rtest_anchored rm_basic)
  next
    case (Cons c1 s1)
    show ?thesis
    proof (cases s1)
      case Nil
      with Cons show ?thesis by (simp add: pat rtest_anchored rm_basic)
    next
      case (Cons c2 s2)
      with \<open>link = c1 # s1\<close> show ?thesis
        using tail[of "Some c2" s2]
        by (simp add: pat rtest_anchored rm_basic)
    qed
  qed
  have "(\<exists>c1 c2 s2. link = c1 # c2 # s2 \<and> c1 \<in> set schemeChars \<and> c2 \<in> set schemeChars \<and>
        (\<exists>k < length s2. (\<forall>j < k. s2 ! j \<in> set schemeChars) \<and> s2 ! k = CHR '':'')) \<longleftrightarrow>
        hasUriScheme link"
    (is "?L \<longleftrightarrow> _")
  proof
    assume ?L
    then obtain c1 c2 s2 k where h: "link = c1 # c2 # s2" "c1 \<in> set schemeChars"
      "c2 \<in> set schemeChars" "k < length s2" "\<forall>j < k. s2 ! j \<in> set schemeChars"
      "s2 ! k = CHR '':''" by blast
    have "s2 = take k s2 @ CHR '':'' # drop (Suc k) s2"
      using h(4,6) by (metis id_take_nth_drop)
    then have "link = (c1 # c2 # take k s2) @ CHR '':'' # drop (Suc k) s2"
      using h(1) by simp
    moreover have "list_all (\<lambda>c. c \<in> set schemeChars) (c1 # c2 # take k s2)"
      using h(2,3,4,5) by (auto simp: list_all_iff in_set_conv_nth)
    ultimately show "hasUriScheme link"
      unfolding hasUriScheme_def
      by (intro exI[of _ "c1 # c2 # take k s2"] exI[of _ "drop (Suc k) s2"]) simp
  next
    assume "hasUriScheme link"
    then obtain s t where h: "link = s @ CHR '':'' # t" "2 \<le> length s"
      "list_all (\<lambda>c. c \<in> set schemeChars) s"
      unfolding hasUriScheme_def by blast
    from h(2) obtain c1 c2 s' where s: "s = c1 # c2 # s'"
      by (cases s; cases "tl s") auto
    have "\<forall>j < length s'. (s' @ CHR '':'' # t) ! j \<in> set schemeChars"
      using h(3) s by (auto simp: list_all_iff nth_append)
    moreover have "(s' @ CHR '':'' # t) ! length s' = CHR '':''" by simp
    ultimately show ?L
      using h(1,3) s
      by (intro exI[of _ c1] exI[of _ c2] exI[of _ "s' @ CHR '':'' # t"])
         (auto intro!: exI[of _ "length s'"])
  qed
  with step show ?thesis by simp
qed



section \<open>Reference links without text\<close>














section \<open>Checkboxes\<close>









section \<open>Links and the ranges without links\<close>

lemma start_rangeOf [simp]: "start (rangeOf a b) = a" and endp_rangeOf [simp]: "endp (rangeOf a b) = b"
  by (simp_all add: rangeOf_def)





















section \<open>The ranges of a link definition\<close>

definition rangesOf :: "mdLink list \<Rightarrow> (range \<times> range \<times> range option) list" where
  "rangesOf ls = map (\<lambda>l. (srange (source l), hrefRange (source l), hrefFragmentRange (source l))) ls"

definition definitionFragmentDoc :: textDocument where
  "definitionFragmentDoc = exampleDoc ''[a]: <b.md#>''"

definition unclosedBracketDoc :: textDocument where
  "unclosedBracketDoc = exampleDoc (joinLines [''[unclosed'', '''', ''[ref]: https://example.com''])"

text \<open>
  Claim C2 fails on link definitions. For \<open>[a]: <b.md#>\<close> the fragment range of the
  definition is (0,12)-(0,11), outside its href range (0,6)-(0,11): getLinkDefinitions
  hands the target with its angle brackets to getLinkSourceFragmentInfo. For the test
  document \<open>[unclosed\<close>, an empty line, \<open>[ref]: https://example.com\<close> the definition matches
  from the first line, and its href range (0,18)-(0,37) lies outside its range
  (0,0)-(0,9): the positions are translated within the first line.
\<close>

theorem definition_ranges_not_nested:
  "rangesOf (getAllLinks exampleEnv [] False definitionFragmentDoc) =
     [(makeRange 0 0 0 12, makeRange 0 6 0 11, Some (makeRange 0 12 0 11))] \<and>
   \<not> rangeContains (makeRange 0 6 0 11) (makeRange 0 12 0 11) \<and>
   rangesOf (getAllLinks exampleEnv (paragraphTokens 1) False unclosedBracketDoc) =
     [(makeRange 0 0 0 9, makeRange 0 18 0 37, None)] \<and>
   \<not> rangeContains (makeRange 0 0 0 9) (makeRange 0 18 0 37)"
  by code_simp

section \<open>Selection ranges\<close>

record location =
  locUri :: uri
  locRange :: range

text \<open>
  An entry of the table of contents (tableOfContents.ts is not among the source files; the
  entry is the record that the source reads): the slug of the header, its text, its level,
  its line, the location of the section it owns, of the header, and of the header text.
\<close>

record tocEntry =
  slug :: string
  tocText :: string
  level :: nat
  tocLine :: int
  sectionLocation :: location
  headerLocation :: location
  headerTextLocation :: location

datatype selectionRange = SelectionRange (srRange: range) (srParent: "selectionRange option")

definition makeSelectionRange :: "range \<Rightarrow> selectionRange option \<Rightarrow> selectionRange" where
  "makeSelectionRange r parent =
     (case parent of
        Some p \<Rightarrow> if areRangesEqual (srRange p) r then p else SelectionRange r parent
      | None \<Rightarrow> SelectionRange r parent)"

text \<open>Modelled from the spec: isEmptyOrWhitespace of util/string.ts, a text of white space only.\<close>

definition isEmptyOrWhitespace :: "string \<Rightarrow> bool" where
  "isEmptyOrWhitespace s = list_all (\<lambda>c. c \<in> set whiteSpace) s"

subsection \<open>The header layer\<close>

definition sectionRange :: "tocEntry \<Rightarrow> range" where
  "sectionRange h = locRange (sectionLocation h)"

text \<open>The sort of JavaScript is stable; the comparator orders the headers by line.\<close>

definition getHeadersForPosition :: "tocEntry list \<Rightarrow> position \<Rightarrow> tocEntry list \<times> bool" where
  "getHeadersForPosition toc pos =
     (let enclosingHeaders =
            filter (\<lambda>h. line (start (sectionRange h)) \<le> line pos \<and>
                        line (endp (sectionRange h)) \<ge> line pos) toc;
          sortedHeaders = sort_key (\<lambda>h. tocLine h - line pos) enclosingHeaders;
          onThisLine = list_ex (\<lambda>h. tocLine h = line pos) toc
      in (sortedHeaders, onThisLine))"

definition createHeaderRange ::
  "tocEntry \<Rightarrow> bool \<Rightarrow> bool \<Rightarrow> selectionRange option \<Rightarrow> position option \<Rightarrow> selectionRange" where
  "createHeaderRange header isClosestHeaderToPosition onHeaderLine parent startOfChildRange =
     (let r = sectionRange header;
          contentRange = rangeOf (translatePosition (start r) 1 0) (endp r)
      in if onHeaderLine \<and> isClosestHeaderToPosition \<and> startOfChildRange \<noteq> None then
           makeSelectionRange (modifyRange r None startOfChildRange)
             (Some (makeSelectionRange r parent))
         else if onHeaderLine \<and> isClosestHeaderToPosition then
           makeSelectionRange r parent
         else if isClosestHeaderToPosition \<and> startOfChildRange \<noteq> None then
           makeSelectionRange (modifyRange contentRange None startOfChildRange)
             (Some (makeSelectionRange contentRange (Some (makeSelectionRange r parent))))
         else
           makeSelectionRange contentRange (Some (makeSelectionRange r parent)))"

definition getFirstChildHeader ::
  "textDocument \<Rightarrow> tocEntry \<Rightarrow> tocEntry list \<Rightarrow> position option" where
  "getFirstChildHeader doc header toc =
     (let children =
            sort_key tocLine
              (filter (\<lambda>t. rangeContains (sectionRange header) (sectionRange t) \<and>
                          line (start (sectionRange t)) > line (start (sectionRange header))) toc)
      in case children of
           [] \<Rightarrow> None
         | c # cs \<Rightarrow>
             (let childRange = start (sectionRange c);
                  lineText = getLine doc (line childRange - 1)
              in Some (translatePosition childRange (- 1) (int (length lineText)))))"

text \<open>The loop of \<open>getHeaderSelectionRange\<close> from the header at index \<open>i\<close> of \<open>n\<close> headers.\<close>

fun headerRangeLoop ::
  "textDocument \<Rightarrow> tocEntry list \<Rightarrow> bool \<Rightarrow> nat \<Rightarrow> nat \<Rightarrow> tocEntry list \<Rightarrow> selectionRange option
     \<Rightarrow> selectionRange option" where
  "headerRangeLoop doc toc onThisLine n i [] currentRange = currentRange"
| "headerRangeLoop doc toc onThisLine n i (h # hs) currentRange =
     headerRangeLoop doc toc onThisLine n (i + 1) hs
       (Some (createHeaderRange h (i + 1 = n) onThisLine currentRange (getFirstChildHeader doc h toc)))"

definition getHeaderSelectionRange ::
  "textDocument \<Rightarrow> tocEntry list \<Rightarrow> position \<Rightarrow> selectionRange option" where
  "getHeaderSelectionRange doc toc pos =
     (let headerInfo = getHeadersForPosition toc pos;
          headers = fst headerInfo
      in headerRangeLoop doc toc (snd headerInfo) (length headers) 0 headers None)"

subsection \<open>The block layer\<close>

definition isList :: "token \<Rightarrow> bool" where
  "isList t = (tokenType t \<noteq> [] \<and>
     tokenType t \<in> set [''ordered_list_open'', ''list_item_open'', ''bullet_list_open''])"

definition isBlockElement :: "token \<Rightarrow> bool" where
  "isBlockElement t =
     (tokenType t \<notin> set [''list_item_close'', ''paragraph_close'', ''bullet_list_close'',
                           ''inline'', ''heading_close'', ''heading_open''])"

text \<open>The tokens with lines around the position, the largest first (a stable sort).\<close>

definition tokenLines :: "token \<Rightarrow> int \<times> int" where
  "tokenLines t = (case tokenMap t of Some mp \<Rightarrow> mp | None \<Rightarrow> (0, 0))"

definition getBlockTokensForPosition ::
  "token list \<Rightarrow> position \<Rightarrow> selectionRange option \<Rightarrow> token list" where
  "getBlockTokensForPosition tokens pos parent =
     (let enclosingTokens =
            filter (\<lambda>t. case tokenMap t of
                          None \<Rightarrow> False
                        | Some mp \<Rightarrow>
                            (fst mp \<le> line pos \<and> snd mp > line pos) \<and>
                            (case parent of
                               None \<Rightarrow> True
                             | Some p \<Rightarrow> fst mp \<ge> line (start (srRange p)) \<and>
                                         snd mp \<le> line (endp (srRange p)) + 1) \<and>
                            isBlockElement t) tokens
      in sort_key (\<lambda>t. - (snd (tokenLines t) - fst (tokenLines t))) enclosingTokens)"

definition createFencedRange ::
  "token \<Rightarrow> int \<Rightarrow> textDocument \<Rightarrow> selectionRange option \<Rightarrow> selectionRange" where
  "createFencedRange t cursorLine doc parent =
     (let startLine = fst (tokenLines t);
          endLine = snd (tokenLines t) - 1;
          onFenceLine = (cursorLine = startLine \<or> cursorLine = endLine);
          fenceRange = makeRange startLine 0 endLine (int (length (getLine doc endLine)))
      in if endLine - startLine > 2 \<and> \<not> onFenceLine then
           makeSelectionRange
             (makeRange (startLine + 1) 0 (endLine - 1) (int (length (getLine doc (endLine - 1)))))
             (Some (makeSelectionRange fenceRange parent))
         else
           (case parent of
              Some p \<Rightarrow> if areRangesEqual (srRange p) fenceRange then p
                        else makeSelectionRange fenceRange parent
            | None \<Rightarrow> makeSelectionRange fenceRange parent))"

definition createBlockRange ::
  "token \<Rightarrow> textDocument \<Rightarrow> int \<Rightarrow> selectionRange option \<Rightarrow> selectionRange" where
  "createBlockRange block doc cursorLine parent =
     (if tokenType block = ''fence'' then createFencedRange block cursorLine doc parent
      else
        (let map0 = fst (tokenLines block);
             map1 = snd (tokenLines block);
             startLine0 = (if isEmptyOrWhitespace (getLine doc map0) then map0 + 1 else map0);
             endLine0 = (if startLine0 = map1 then map1 else map1 - 1);
             paragraph = (tokenType block = ''paragraph_open'' \<and> map1 - map0 = 2);
             startLine = (if paragraph then cursorLine else startLine0);
             endLine = (if paragraph then cursorLine
                        else if isList block \<and> isEmptyOrWhitespace (getLine doc endLine0)
                        then endLine0 - 1 else endLine0);
             r = makeRange startLine 0 endLine (int (length (getLine doc endLine)))
         in case parent of
              Some p \<Rightarrow>
                if rangeContains (srRange p) r \<and> \<not> areRangesEqual (srRange p) r
                then makeSelectionRange r parent
                else if areRangesEqual (srRange p) r then p
                else makeSelectionRange r None
            | None \<Rightarrow> makeSelectionRange r None))"

definition getBlockSelectionRange ::
  "token list \<Rightarrow> textDocument \<Rightarrow> position \<Rightarrow> selectionRange option \<Rightarrow> selectionRange option" where
  "getBlockSelectionRange tokens doc pos parent =
     (case getBlockTokensForPosition tokens pos parent of
        [] \<Rightarrow> None
      | b # bs \<Rightarrow>
          (case parent of
             Some p \<Rightarrow>
               Some (foldl (\<lambda>currentRange t. createBlockRange t doc (line pos) (Some currentRange))
                           p (b # bs))
           | None \<Rightarrow>
               Some (foldl (\<lambda>currentRange t. createBlockRange t doc (line pos) (Some currentRange))
                           (createBlockRange b doc (line pos) None) bs)))"

subsection \<open>The inline layer\<close>

definition reStar :: re where "reStar = reLit CHR ''*''"
definition reNoStar :: re where "reNoStar = reNot ''*''"

text \<open>\<open>/\*\*([^*]+\*?[^*]+\*?[^*]+)\*\*/gim\<close>\<close>

definition boldPattern :: re where
  "boldPattern =
     reSeqs [reStar, reStar,
             RGrp 1 (reSeqs [rePlus reNoStar, reOpt reStar, rePlus reNoStar, reOpt reStar,
                             rePlus reNoStar]),
             reStar, reStar]"

text \<open>The italic part \<open>(\*([^*]+)(?:\*\*[^*]*\*\*)*([^*]+)\*)\<close> of the two italic expressions.\<close>

definition italicCore :: re where
  "italicCore =
     RGrp 1 (reSeqs [reStar, RGrp 2 (rePlus reNoStar),
                     RStar (reSeqs [reStar, reStar, RStar reNoStar, reStar, reStar]),
                     RGrp 3 (rePlus reNoStar), reStar])"

definition italicPattern0 :: re where
  "italicPattern0 = reSeqs [rePlus reNoStar, italicCore, rePlus reNoStar]"

definition italicPattern1 :: re where
  "italicPattern1 = reSeqs [RBol, RStar reNoStar, italicCore, RStar reNoStar, REol]"

definition codeSpanPattern :: re where
  "codeSpanPattern = reSeqs [reLit chBacktick, RStar (reNot [chBacktick]), reLit chBacktick]"

text \<open>\<open>s.indexOf(t)\<close> as a number: -1 when \<open>t\<close> does not occur.\<close>

definition indexOfInt :: "string \<Rightarrow> string \<Rightarrow> int" where
  "indexOfInt s t = (case indexOf s t of None \<Rightarrow> - 1 | Some i \<Rightarrow> int i)"

definition matchesAtCursor :: "re \<Rightarrow> string \<Rightarrow> int \<Rightarrow> rmatch list" where
  "matchesAtCursor r lineText cursorChar =
     filter (\<lambda>m. indexOfInt lineText (mfull m) \<le> cursorChar \<and>
                 indexOfInt lineText (mfull m) + int (length (mfull m)) \<ge> cursorChar)
            (matchAll r lineText)"

definition createBoldRange ::
  "string \<Rightarrow> int \<Rightarrow> int \<Rightarrow> selectionRange option \<Rightarrow> selectionRange option" where
  "createBoldRange lineText cursorChar cursorLine parent =
     (case matchesAtCursor boldPattern lineText cursorChar of
        [] \<Rightarrow> None
      | m # ms \<Rightarrow>
          (let bold = mfull m;
               startIndex = indexOfInt lineText bold;
               n = int (length bold);
               cursorOnStars = (cursorChar = startIndex \<or> cursorChar = startIndex + 1 \<or>
                                cursorChar = startIndex + n \<or> cursorChar = startIndex + n - 1);
               contentAndStars =
                 makeSelectionRange (makeRange cursorLine startIndex cursorLine (startIndex + n)) parent;
               content =
                 makeSelectionRange (makeRange cursorLine (startIndex + 2) cursorLine (startIndex + n - 2))
                   (Some contentAndStars)
           in Some (if cursorOnStars then contentAndStars else content)))"

definition createOtherInlineRange ::
  "string \<Rightarrow> int \<Rightarrow> int \<Rightarrow> bool \<Rightarrow> selectionRange option \<Rightarrow> selectionRange option" where
  "createOtherInlineRange lineText cursorChar cursorLine isItalic parent =
     (let matches =
            (if isItalic then
               (case matchesAtCursor italicPattern0 lineText cursorChar of
                  [] \<Rightarrow> matchesAtCursor italicPattern1 lineText cursorChar
                | m # ms \<Rightarrow> m # ms)
             else matchesAtCursor codeSpanPattern lineText cursorChar)
      in case matches of
           [] \<Rightarrow> None
         | m # ms \<Rightarrow>
             (let matched = (if isItalic then mtext m 1 else mfull m);
                  startIndex = indexOfInt lineText matched;
                  n = int (length matched);
                  cursorOnType = (cursorChar = startIndex \<or> cursorChar = startIndex + n);
                  contentAndType =
                    makeSelectionRange (makeRange cursorLine startIndex cursorLine (startIndex + n)) parent;
                  content =
                    makeSelectionRange (makeRange cursorLine (startIndex + 1) cursorLine (startIndex + n - 1))
                      (Some contentAndType)
              in Some (if cursorOnType then contentAndType else content)))"

definition createLinkRange ::
  "mdLink list \<Rightarrow> position \<Rightarrow> selectionRange option \<Rightarrow> selectionRange option" where
  "createLinkRange allLinks cursorPos parent =
     (case filter (\<lambda>l. positionInRange (srange (source l)) cursorPos) allLinks of
        [] \<Rightarrow> None
      | l0 # ls \<Rightarrow>
          (let link = last (l0 # ls);
               src = source link
           in if kind link = AutoLink then
                Some (makeSelectionRange (hrefRange src) (Some (makeSelectionRange (srange src) parent)))
              else if (case href link of Reference r \<Rightarrow> True | _ \<Rightarrow> False) \<and>
                      areRangesEqual (targetRange src) (srange src) then
                Some (makeSelectionRange (targetRange src) parent)
              else
                (let fullLinkSelectionRange = makeSelectionRange (srange src) parent
                 in if positionInRange (targetRange src) cursorPos then
                      (if kind link = Definition then
                         Some (makeSelectionRange (targetRange src) (Some fullLinkSelectionRange))
                       else
                         (let linkDestRanges =
                                makeSelectionRange
                                  (rangeOf (translatePosition (start (targetRange src)) 0 1)
                                           (translatePosition (endp (targetRange src)) 0 (- 1)))
                                  (Some (makeSelectionRange (targetRange src)
                                           (Some fullLinkSelectionRange)))
                          in if (case titleRange src of
                                   Some tr \<Rightarrow> positionInRange tr cursorPos | None \<Rightarrow> False) then
                               Some (makeSelectionRange (the (titleRange src)) (Some linkDestRanges))
                             else if isAngleBracketLink src \<and>
                                     positionInRange (hrefRange src) cursorPos then
                               Some (makeSelectionRange (hrefRange src)
                                  (Some (makeSelectionRange
                                     (rangeOf (translatePosition (start (hrefRange src)) 0 (- 1))
                                              (translatePosition (endp (hrefRange src)) 0 1))
                                     (Some linkDestRanges))))
                             else if titleRange src \<noteq> None then
                               Some (makeSelectionRange (hrefRange src) (Some linkDestRanges))
                             else Some linkDestRanges))
                    else
                      (if kind link = Definition then
                         Some (makeSelectionRange
                                 (rangeOf (translatePosition (start (srange src)) 0 1)
                                          (translatePosition (start (targetRange src)) 0 (- 3)))
                                 (Some fullLinkSelectionRange))
                       else
                         Some (makeSelectionRange
                                 (rangeOf (translatePosition (start (srange src)) 0 1)
                                          (translatePosition (start (targetRange src)) 0 (- 1)))
                                 (Some fullLinkSelectionRange))))))"

text \<open>\<open>a ?? b\<close> on selection ranges.\<close>

definition orElse :: "'a option \<Rightarrow> 'a option \<Rightarrow> 'a option" where
  "orElse a b = (case a of Some x \<Rightarrow> Some x | None \<Rightarrow> b)"

definition createInlineRange ::
  "textDocument \<Rightarrow> position \<Rightarrow> selectionRange option \<Rightarrow> mdLink list \<Rightarrow> selectionRange option" where
  "createInlineRange doc cursorPosition parent allLinks =
     (let lineText = getLine doc (line cursorPosition);
          boldSelection = createBoldRange lineText (character cursorPosition) (line cursorPosition) parent;
          italicSelection =
            createOtherInlineRange lineText (character cursorPosition) (line cursorPosition) True parent;
          comboSelection =
            (case (boldSelection, italicSelection) of
               (Some b, Some i) \<Rightarrow>
                 if \<not> areRangesEqual (srRange b) (srRange i) then
                   (if rangeContains (srRange b) (srRange i) then
                      createOtherInlineRange lineText (character cursorPosition)
                        (line cursorPosition) True boldSelection
                    else if rangeContains (srRange i) (srRange b) then
                      createBoldRange lineText (character cursorPosition) (line cursorPosition)
                        italicSelection
                    else None)
                 else None
             | _ \<Rightarrow> None);
          linkSelection =
            createLinkRange allLinks cursorPosition
              (orElse comboSelection (orElse boldSelection (orElse italicSelection parent)));
          inlineCodeBlockSelection =
            createOtherInlineRange lineText (character cursorPosition) (line cursorPosition) False
              (orElse linkSelection parent)
      in orElse inlineCodeBlockSelection
           (orElse linkSelection (orElse comboSelection (orElse boldSelection italicSelection))))"

text \<open>
  \<open>provideSelectionRange\<close> for one position: the table of contents and the tokens are those
  of the document, the links are those of \<open>getAllLinks\<close>.
\<close>

definition provideSelectionRange ::
  "linkEnv \<Rightarrow> token list \<Rightarrow> tocEntry list \<Rightarrow> textDocument \<Rightarrow> position \<Rightarrow> selectionRange option" where
  "provideSelectionRange env tokens toc doc pos =
     (let headerRange = getHeaderSelectionRange doc toc pos;
          blockRange = getBlockSelectionRange tokens doc pos headerRange;
          inlineRange = createInlineRange doc pos blockRange (getAllLinks env tokens False doc)
      in orElse inlineRange (orElse blockRange headerRange))"

definition provideSelectionRanges ::
  "linkEnv \<Rightarrow> token list \<Rightarrow> tocEntry list \<Rightarrow> textDocument \<Rightarrow> position list \<Rightarrow> selectionRange list" where
  "provideSelectionRanges env tokens toc doc positions =
     concat (map (\<lambda>p. case provideSelectionRange env tokens toc doc p of None \<Rightarrow> [] | Some r \<Rightarrow> [r])
                 positions)"

text \<open>The ranges of a chain, from the innermost outwards.\<close>

fun lineage :: "selectionRange \<Rightarrow> range list" where
  "lineage (SelectionRange r None) = [r]"
| "lineage (SelectionRange r (Some p)) = r # lineage p"

text \<open>No node of a chain has the range of its parent.\<close>

fun distinctFromParent :: "selectionRange \<Rightarrow> bool" where
  "distinctFromParent (SelectionRange r None) = True"
| "distinctFromParent (SelectionRange r (Some p)) =
     (\<not> areRangesEqual (srRange p) r \<and> distinctFromParent p)"

definition distinctChain :: "selectionRange option \<Rightarrow> bool" where
  "distinctChain parent = (case parent of None \<Rightarrow> True | Some p \<Rightarrow> distinctFromParent p)"

lemma distinctChain_simps [simp]:
  "distinctChain None" "distinctChain (Some p) = distinctFromParent p"
  by (simp_all add: distinctChain_def)

lemma makeSelectionRange_distinct [simp]:
  "distinctChain parent \<Longrightarrow> distinctFromParent (makeSelectionRange r parent)"
  by (cases parent) (auto simp: makeSelectionRange_def)

lemma createHeaderRange_distinct [simp]:
  "distinctChain parent \<Longrightarrow> distinctFromParent (createHeaderRange h c onl parent s)"
  by (simp add: createHeaderRange_def Let_def)

lemma headerRangeLoop_distinct:
  "distinctChain cur \<Longrightarrow> distinctChain (headerRangeLoop doc toc onl n i hs cur)"
  by (induction hs arbitrary: i cur) simp_all

lemma getHeaderSelectionRange_distinct [simp]:
  "distinctChain (getHeaderSelectionRange doc toc pos)"
  by (simp add: getHeaderSelectionRange_def Let_def headerRangeLoop_distinct)

lemma createFencedRange_distinct [simp]:
  "distinctChain parent \<Longrightarrow> distinctFromParent (createFencedRange t cl doc parent)"
  by (cases parent) (auto simp: createFencedRange_def Let_def)

lemma createBlockRange_distinct [simp]:
  "distinctChain parent \<Longrightarrow> distinctFromParent (createBlockRange t doc cl parent)"
  by (cases parent) (auto simp: createBlockRange_def Let_def)

lemma foldl_createBlockRange_distinct:
  "distinctFromParent cur \<Longrightarrow>
     distinctFromParent (foldl (\<lambda>currentRange t. createBlockRange t doc cl (Some currentRange)) cur ts)"
  by (induction ts arbitrary: cur) simp_all

lemma getBlockSelectionRange_distinct [simp]:
  "distinctChain parent \<Longrightarrow> distinctChain (getBlockSelectionRange tokens doc pos parent)"
  by (auto simp: getBlockSelectionRange_def foldl_createBlockRange_distinct
           split: list.splits option.splits)

lemma createBoldRange_distinct [simp]:
  "distinctChain parent \<Longrightarrow> distinctChain (createBoldRange lt cc cl parent)"
  by (auto simp: createBoldRange_def Let_def split: list.splits)

lemma createOtherInlineRange_distinct [simp]:
  "distinctChain parent \<Longrightarrow> distinctChain (createOtherInlineRange lt cc cl it parent)"
  by (auto simp: createOtherInlineRange_def Let_def split: list.splits)

lemma createLinkRange_distinct [simp]:
  "distinctChain parent \<Longrightarrow> distinctChain (createLinkRange ls cp parent)"
  by (auto simp: createLinkRange_def Let_def split: list.splits)

lemma orElse_distinct [simp]:
  "distinctChain a \<Longrightarrow> distinctChain b \<Longrightarrow> distinctChain (orElse a b)"
  by (cases a) (simp_all add: orElse_def)

lemma createInlineRange_distinct [simp]:
  assumes "distinctChain parent"
  shows "distinctChain (createInlineRange doc cp parent ls)"
proof -
  define lt where "lt = getLine doc (line cp)"
  define b where "b = createBoldRange lt (character cp) (line cp) parent"
  define i where "i = createOtherInlineRange lt (character cp) (line cp) True parent"
  define c where "c =
            (case (b, i) of
               (Some b', Some i') \<Rightarrow>
                 if \<not> areRangesEqual (srRange b') (srRange i') then
                   (if rangeContains (srRange b') (srRange i') then
                      createOtherInlineRange lt (character cp) (line cp) True b
                    else if rangeContains (srRange i') (srRange b') then
                      createBoldRange lt (character cp) (line cp) i
                    else None)
                 else None
             | _ \<Rightarrow> None)"
  have db: "distinctChain b" and di: "distinctChain i"
    using assms by (simp_all add: b_def i_def)
  have dc: "distinctChain c"
    using db di by (auto simp: c_def split: option.splits)
  have "createInlineRange doc cp parent ls =
      (let linkSelection = createLinkRange ls cp (orElse c (orElse b (orElse i parent)));
           inlineCodeBlockSelection =
             createOtherInlineRange lt (character cp) (line cp) False (orElse linkSelection parent)
       in orElse inlineCodeBlockSelection (orElse linkSelection (orElse c (orElse b i))))"
    unfolding createInlineRange_def Let_def lt_def b_def i_def c_def by (rule refl)
  then show ?thesis
    using assms db di dc by (simp add: Let_def)
qed

lemma provideSelectionRange_distinct:
  "distinctChain (provideSelectionRange env tokens toc doc pos)"
  by (simp add: provideSelectionRange_def Let_def)

lemma selection_ranges_differ_from_parent:
  "list_all distinctFromParent (provideSelectionRanges env tokens toc doc positions)"
proof -
  have a: "distinctFromParent r" if "Some r = provideSelectionRange env tokens toc doc p" for p r
    using provideSelectionRange_distinct[of env tokens toc doc p] that[symmetric] by simp
  show ?thesis
    by (auto simp: provideSelectionRanges_def list_all_iff split: option.splits dest: a)
qed

lemma select_single_word:
  "map lineage (provideSelectionRanges exampleEnv (paragraphTokens 1) [] (exampleDoc ''Hello'')
                  [makePosition 0 3]) = [[makeRange 0 0 0 5]]"
  by code_simp

text \<open>
  Claim C7 fails on a link with bold text. In the one-line document \<open>[**bcd**](f)\<close> with
  the cursor at character 4 the chain is (0,1)-(0,8), (0,0)-(0,12), (0,3)-(0,6),
  (0,1)-(0,8), (0,0)-(0,12): createInlineRange hands the bold selection to createLinkRange
  as the parent of the link ranges, so the range of the whole link (0,0)-(0,12) has the
  bold content (0,3)-(0,6) as its parent and is not contained in it. The other two parts
  hold: no node has the range of its parent (\<open>selection_ranges_differ_from_parent\<close>), and
  the chain of \<open>Hello\<close> is the one range of the word (\<open>select_single_word\<close>).
\<close>

theorem selection_range_outside_parent:
  "map lineage (provideSelectionRanges exampleEnv (paragraphTokens 1) [] (exampleDoc ''[**bcd**](f)'')
                  [makePosition 0 4]) =
     [[makeRange 0 1 0 8, makeRange 0 0 0 12, makeRange 0 3 0 6, makeRange 0 1 0 8,
       makeRange 0 0 0 12]] \<and>
   \<not> rangeContains (makeRange 0 3 0 6) (makeRange 0 0 0 12)"
  by code_simp

section \<open>The workspace\<close>

text \<open>
  The collaborators of the rename providers and of the link provider that are not among
  the source files, as parameters. Of the workspace: \<open>stat\<close> (nothing when there is no
  file, else whether it is a directory), \<open>openMarkdownDocument\<close>, \<open>getContainingDocument\<close>
  (whether a containing document is reported) and \<open>statLinkToMarkdownFile\<close>. Of the
  configuration: the first Markdown file extension, \<open>looksLikeMarkdownUri\<close>, \<open>isExcludedPath\<close>,
  \<open>tryAppendMarkdownFileExtension\<close> and \<open>removeNewUriExtIfNeeded\<close>. Of the URI and path
  libraries: the path and the file-system path of a URI, a URI with another path,
  \<open>Utils.extname\<close>, \<open>Utils.joinPath\<close>, \<open>Utils.dirname\<close>, \<open>path.posix.relative\<close>, \<open>path.posix.join\<close>,
  \<open>isSameResource\<close>, \<open>isParentDir\<close>, \<open>computeRelativePath\<close> and \<open>encodeURI\<close>. Of the link
  utilities: \<open>needsAngleBracketLink\<close>, \<open>escapeForAngleBracketLink\<close> and
  \<open>parseLocationInfoFromFragment\<close>. Then the slugifier, the table of contents of a document
  (from the provider, computed afresh, and of the containing document), and the
  references provider.
\<close>

datatype mdReference =
    isHeaderReference: HeaderReference (refLocation: location) (isTriggerLocation: bool)
      (isDefinition: bool) (headerText: string) (refHeaderTextLocation: location)
  | isLinkReference: LinkReference (refLocation: location) (isTriggerLocation: bool)
      (isDefinition: bool) (refLink: mdLink)

record workspaceEnv =
  linkEnvOf :: linkEnv
  stat :: "uri \<Rightarrow> bool option"
  openMarkdownDocument :: "uri \<Rightarrow> textDocument option"
  hasContainingDocument :: "uri \<Rightarrow> bool"
  statLinkToMarkdownFile :: "uri \<Rightarrow> uri option"
  markdownFileExtension :: string
  looksLikeMarkdownUri :: "uri \<Rightarrow> bool"
  isExcludedPath :: "uri \<Rightarrow> bool"
  tryAppendMarkdownFileExtension :: "uri \<Rightarrow> uri option"
  removeNewUriExtIfNeeded :: "href \<Rightarrow> uri \<Rightarrow> uri"
  uriPath :: "uri \<Rightarrow> string"
  fsPath :: "uri \<Rightarrow> string"
  withPath :: "uri \<Rightarrow> string \<Rightarrow> uri"
  extname :: "uri \<Rightarrow> string"
  joinPath :: "uri \<Rightarrow> string \<Rightarrow> uri"
  uriDirname :: "uri \<Rightarrow> uri"
  posixRelative :: "string \<Rightarrow> string \<Rightarrow> string"
  posixJoin :: "string \<Rightarrow> string \<Rightarrow> string"
  isSameResource :: "uri \<Rightarrow> uri \<Rightarrow> bool"
  isParentDir :: "uri \<Rightarrow> uri \<Rightarrow> bool"
  computeRelativePath :: "uri \<Rightarrow> uri \<Rightarrow> bool \<Rightarrow> string option"
  encodeURI :: "string \<Rightarrow> string"
  needsAngleBracketLink :: "string \<Rightarrow> bool"
  escapeForAngleBracketLink :: "string \<Rightarrow> string"
  parseLocationInfoFromFragment :: "string \<Rightarrow> position option"
  slugFromHeading :: "string \<Rightarrow> string"
  getForDocument :: "textDocument \<Rightarrow> tocEntry list"
  createToc :: "textDocument \<Rightarrow> tocEntry list"
  getForContainingDoc :: "textDocument \<Rightarrow> tocEntry list"
  getReferencesAtPosition :: "textDocument \<Rightarrow> position \<Rightarrow> mdReference list"
  getReferencesToFileInWorkspace :: "uri \<Rightarrow> mdReference list"
  linkCacheEntries :: "(uri \<times> mdLink list) list"
  linkCacheForDoc :: "textDocument \<Rightarrow> mdLink list"

text \<open>
  Modelled from the spec: WorkspaceEditBuilder (util/editBuilder.ts) is not among the
  source files. The builder is the list of the operations asked of it, in the order of
  the calls; \<open>getEdit\<close> is that list.
\<close>

datatype workspaceEdit = Replace uri range string | RenameFile uri uri

definition replace :: "workspaceEdit list \<Rightarrow> uri \<Rightarrow> range \<Rightarrow> string \<Rightarrow> workspaceEdit list" where
  "replace builder u r newText = builder @ [Replace u r newText]"

definition renameFile :: "workspaceEdit list \<Rightarrow> uri \<Rightarrow> uri \<Rightarrow> workspaceEdit list" where
  "renameFile builder u v = builder @ [RenameFile u v]"

text \<open>
  Modelled from the spec: InMemoryDocument (types/inMemoryDocument.ts) is not among the
  source files. \<open>applyEdit\<close> is \<open>applyEdits\<close> with one replacement: the text of the range
  gives way to the new text.
\<close>

definition tempDocVersion :: int where
  "tempDocVersion = - 1"

definition applyEdit :: "textDocument \<Rightarrow> range \<Rightarrow> string \<Rightarrow> textDocument" where
  "applyEdit doc r newText =
     doc\<lparr>docText := take (offsetAt doc (start r)) (docText doc) @ newText @
                      drop (offsetAt doc (endp r)) (docText doc)\<rparr>"

section \<open>Renaming\<close>

subsection \<open>The edit of one link\<close>

definition getLinkRenameText :: "workspaceEnv \<Rightarrow> mdLinkSource \<Rightarrow> uri \<Rightarrow> bool \<Rightarrow> string option" where
  "getLinkRenameText env src newPath preferDotSlash =
     (if startsWith (hrefText src) ''/'' then
        (case resolveInternalDocumentLink (linkEnvOf env) (resource src) ''/'' of
           None \<Rightarrow> None
         | Some root \<Rightarrow> Some (''/'' @ posixRelative env (uriPath env (fst root)) (uriPath env newPath)))
      else computeRelativePath env (resource src) newPath preferDotSlash)"

definition newPathWithFragmentIfNeeded :: "string \<Rightarrow> mdLink \<Rightarrow> string" where
  "newPathWithFragmentIfNeeded newPath link =
     (case href link of
        Internal p fragment \<Rightarrow> if fragment \<noteq> [] then newPath @ ''#'' @ fragment else newPath
      | _ \<Rightarrow> newPath)"

definition getLinkRenameEdit :: "workspaceEnv \<Rightarrow> mdLink \<Rightarrow> string \<Rightarrow> range \<times> string" where
  "getLinkRenameEdit env link newPathText0 =
     (let linkRange = hrefRange (source link);
          newPathText =
            newPathWithFragmentIfNeeded
              (map (\<lambda>c. if c = chBackslash then CHR ''/'' else c) newPathText0) link
      in if isAngleBracketLink (source link) then
           (if \<not> needsAngleBracketLink env newPathText then
              (rangeOf (translatePosition (start linkRange) 0 (- 1))
                       (translatePosition (endp linkRange) 0 1), newPathText)
            else (linkRange, escapeForAngleBracketLink env newPathText))
         else if needsAngleBracketLink env newPathText then
           (linkRange, ''<'' @ escapeForAngleBracketLink env newPathText @ ''>'')
         else (linkRange, newPathText))"

subsection \<open>The references at a position\<close>

text \<open>
  The rename provider keeps the last answer of the references provider that had a trigger,
  with the resource, version and position it was asked for; \<open>getAllReferences\<close> returns that
  answer again for a document with the same file-system path and version at the same
  position, before it looks at the cancellation token.
\<close>

record cachedRefs =
  cResource :: uri
  cVersion :: int
  cPosition :: position
  cTriggerRef :: mdReference
  cReferences :: "mdReference list"

definition getAllReferences ::
  "workspaceEnv \<Rightarrow> cachedRefs option \<Rightarrow> textDocument \<Rightarrow> position \<Rightarrow> bool
     \<Rightarrow> cachedRefs option \<times> cachedRefs option" where
  "getAllReferences env cache document pos cancelled =
     (if (case cache of
            None \<Rightarrow> False
          | Some c \<Rightarrow> fsPath env (cResource c) = fsPath env (docUri document) \<and>
                      cVersion c = docVersion document \<and> arePositionsEqual (cPosition c) pos)
      then (cache, cache)
      else
        (let references = getReferencesAtPosition env document pos
         in if cancelled then (None, cache)
            else
              (case find isTriggerLocation references of
                 None \<Rightarrow> (None, cache)
               | Some triggerRef \<Rightarrow>
                   (let c = \<lparr>cResource = docUri document, cVersion = docVersion document,
                              cPosition = pos, cTriggerRef = triggerRef,
                              cReferences = references\<rparr>
                    in (Some c, Some c)))))"

subsection \<open>The four renames\<close>

text \<open>\<open>ref.link.source.hrefFragmentRange ?? ref.location.range\<close>\<close>

definition fragmentOrLocationRange :: "mdReference \<Rightarrow> range" where
  "fragmentOrLocationRange ref =
     (case hrefFragmentRange (source (refLink ref)) of
        Some r \<Rightarrow> r
      | None \<Rightarrow> locRange (refLocation ref))"

definition renameReferenceLinks :: "cachedRefs \<Rightarrow> string \<Rightarrow> workspaceEdit list" where
  "renameReferenceLinks allRefsInfo newName =
     foldl (\<lambda>builder ref.
              if isLinkReference ref then
                (if kind (refLink ref) = Definition then
                   replace builder (resource (source (refLink ref)))
                     (case defRef (refLink ref) of
                        Some d \<Rightarrow> snd d
                      | None \<Rightarrow> srange (source (refLink ref)))
                     newName
                 else
                   replace builder (resource (source (refLink ref)))
                     (fragmentOrLocationRange ref) newName)
              else builder)
           [] (cReferences allRefsInfo)"

definition renameExternalLink :: "cachedRefs \<Rightarrow> string \<Rightarrow> workspaceEdit list" where
  "renameExternalLink allRefsInfo newName =
     foldl (\<lambda>builder ref.
              if isLinkReference ref then
                replace builder (resource (source (refLink ref))) (locRange (refLocation ref)) newName
              else builder)
           [] (cReferences allRefsInfo)"

definition renameFilePath ::
  "workspaceEnv \<Rightarrow> uri \<Rightarrow> uri \<Rightarrow> cachedRefs \<Rightarrow> string \<Rightarrow> bool \<Rightarrow> workspaceEdit list" where
  "renameFilePath env triggerDocument triggerHrefPath allRefsInfo newName cancelled =
     (let targetUri = (case statLinkToMarkdownFile env triggerHrefPath of
                         Some u \<Rightarrow> u
                       | None \<Rightarrow> triggerHrefPath)
      in if cancelled then []
         else
           (case resolveInternalDocumentLink (linkEnvOf env) triggerDocument newName of
              None \<Rightarrow> []
            | Some rawNewFilePath \<Rightarrow>
                (let resolvedNewFilePath =
                       (if extname env (fst rawNewFilePath) = [] \<and> extname env targetUri \<noteq> [] then
                          withPath env (fst rawNewFilePath)
                            (uriPath env (fst rawNewFilePath) @ ''.'' @ markdownFileExtension env)
                        else fst rawNewFilePath);
                     builder = (if stat env targetUri \<noteq> None
                                then renameFile [] targetUri resolvedNewFilePath else [])
                 in foldl (\<lambda>builder ref.
                             if isLinkReference ref then
                               (let newLinkText =
                                      getLinkRenameText env (source (refLink ref)) (fst rawNewFilePath)
                                        (startsWith newName ''./'' \<or>
                                         startsWith newName [CHR ''.'', chBackslash]);
                                    e = getLinkRenameEdit env (refLink ref)
                                          (case newLinkText of Some t \<Rightarrow> t | None \<Rightarrow> newName)
                                in replace builder (resource (source (refLink ref))) (fst e) (snd e))
                             else builder)
                          builder (cReferences allRefsInfo))))"

text \<open>
  The comparison of the two tables of contents in \<open>renameFragment\<close>: the entries are taken
  in pairs by index, an old entry without a new one is passed over; the state is the new
  slug and the list of changed headers.
\<close>

fun compareTocs ::
  "int \<Rightarrow> tocEntry list \<Rightarrow> tocEntry list \<Rightarrow> string \<times> tocEntry list \<Rightarrow> string \<times> tocEntry list" where
  "compareTocs l [] newEntries st = st"
| "compareTocs l (oldEntry # olds) [] st = compareTocs l olds [] st"
| "compareTocs l (oldEntry # olds) (newEntry # news) st =
     compareTocs l olds news
       (if line (start (locRange (headerLocation oldEntry))) = l then (slug newEntry, snd st)
        else if slug oldEntry \<noteq> slug newEntry then (fst st, snd st @ [newEntry])
        else st)"

text \<open>The loop over the changed headers: nothing is returned once the token is cancelled.\<close>

fun renameChangedHeaders ::
  "workspaceEnv \<Rightarrow> textDocument \<Rightarrow> bool \<Rightarrow> tocEntry list \<Rightarrow> cachedRefs option
     \<Rightarrow> workspaceEdit list \<Rightarrow> workspaceEdit list option \<times> cachedRefs option" where
  "renameChangedHeaders env doc cancelled [] cache builder = (Some builder, cache)"
| "renameChangedHeaders env doc cancelled (changedHeader # hs) cache builder =
     (let refs = getAllReferences env cache doc
                   (start (locRange (headerLocation changedHeader))) cancelled
      in if cancelled then (None, snd refs)
         else
           renameChangedHeaders env doc cancelled hs (snd refs)
             (foldl (\<lambda>builder ref.
                       if isLinkReference ref then
                         replace builder (resource (source (refLink ref)))
                           (fragmentOrLocationRange ref) (slug changedHeader)
                       else builder)
                    builder
                    (case fst refs of Some r \<Rightarrow> cReferences r | None \<Rightarrow> [])))"

text \<open>The last loop of \<open>renameFragment\<close>, over the references of the trigger.\<close>

definition renameTriggerReferences ::
  "cachedRefs \<Rightarrow> string \<Rightarrow> string \<Rightarrow> workspaceEdit list \<Rightarrow> workspaceEdit list" where
  "renameTriggerReferences allRefsInfo newHeaderText newSlug builder =
     foldl (\<lambda>builder ref.
              case ref of
                HeaderReference loc trig isDef txt headerTextLoc \<Rightarrow>
                  replace builder (locUri loc) (locRange headerTextLoc) newHeaderText
              | LinkReference loc trig isDef link \<Rightarrow>
                  replace builder (resource (source link)) (fragmentOrLocationRange ref)
                    (if hrefFragmentRange (source link) = None \<or>
                        (case href link of External u \<Rightarrow> True | _ \<Rightarrow> False)
                     then newHeaderText else newSlug))
           builder (cReferences allRefsInfo)"

text \<open>The copy of the document in which the header gives way to the new header.\<close>

definition editedDocument :: "mdReference \<Rightarrow> textDocument \<Rightarrow> string \<Rightarrow> textDocument" where
  "editedDocument existingHeader doc newHeaderText =
     applyEdit
       \<lparr>docUri = locUri (refLocation existingHeader), docVersion = tempDocVersion,
        docText = docText doc\<rparr>
       (locRange (refLocation existingHeader)) (''# '' @ newHeaderText)"

definition renameFragment ::
  "workspaceEnv \<Rightarrow> cachedRefs option \<Rightarrow> cachedRefs \<Rightarrow> string \<Rightarrow> bool
     \<Rightarrow> workspaceEdit list option \<times> cachedRefs option" where
  "renameFragment env cache allRefsInfo newHeaderText cancelled =
     (let newSlug = slugFromHeading env newHeaderText
      in case find isHeaderReference (cReferences allRefsInfo) of
           None \<Rightarrow> (Some (renameTriggerReferences allRefsInfo newHeaderText newSlug []), cache)
         | Some existingHeader \<Rightarrow>
             (let doc = openMarkdownDocument env (locUri (refLocation existingHeader))
              in if cancelled then (None, cache)
                 else
                   (case doc of
                      None \<Rightarrow>
                        (Some (renameTriggerReferences allRefsInfo newHeaderText newSlug []), cache)
                    | Some doc \<Rightarrow>
                        (let editedDoc = editedDocument existingHeader doc newHeaderText;
                             oldToc = getForDocument env doc;
                             newToc = createToc env editedDoc
                         in if cancelled then (None, cache)
                            else
                              (let diff = compareTocs
                                            (line (start (locRange (refLocation existingHeader))))
                                            oldToc newToc (newSlug, []);
                                   cascade = renameChangedHeaders env doc cancelled (snd diff) cache []
                               in case fst cascade of
                                    None \<Rightarrow> (None, snd cascade)
                                  | Some builder \<Rightarrow>
                                      (Some (renameTriggerReferences allRefsInfo newHeaderText
                                               (fst diff) builder),
                                       snd cascade))))))"

text \<open>
  \<open>provideRenameEdits\<close>: the edits, or nothing, and the references kept for the next call.
\<close>

definition fragmentContains :: "mdLink \<Rightarrow> position \<Rightarrow> bool" where
  "fragmentContains link pos =
     (case hrefFragmentRange (source link) of
        Some r \<Rightarrow> positionInRange r pos
      | None \<Rightarrow> False)"

definition isInternal :: "href \<Rightarrow> bool" where
  "isInternal h = (case h of Internal p f \<Rightarrow> True | _ \<Rightarrow> False)"

definition isExternal :: "href \<Rightarrow> bool" where
  "isExternal h = (case h of External u \<Rightarrow> True | _ \<Rightarrow> False)"

definition isReference :: "href \<Rightarrow> bool" where
  "isReference h = (case h of Reference r \<Rightarrow> True | _ \<Rightarrow> False)"

definition provideRenameEdits ::
  "workspaceEnv \<Rightarrow> cachedRefs option \<Rightarrow> textDocument \<Rightarrow> position \<Rightarrow> string \<Rightarrow> bool
     \<Rightarrow> workspaceEdit list option \<times> cachedRefs option" where
  "provideRenameEdits env cache document pos newName cancelled =
     (let refs = getAllReferences env cache document pos cancelled
      in if cancelled then (None, snd refs)
         else
           (case fst refs of
              None \<Rightarrow> (None, snd refs)
            | Some allRefsInfo \<Rightarrow>
                if cReferences allRefsInfo = [] then (None, snd refs)
                else
                  (case cTriggerRef allRefsInfo of
                     HeaderReference loc trig isDef txt headerTextLoc \<Rightarrow>
                       renameFragment env (snd refs) allRefsInfo newName cancelled
                   | LinkReference loc trig isDef link \<Rightarrow>
                       if (kind link = Definition \<and>
                           (case defRef link of Some d \<Rightarrow> positionInRange (snd d) pos
                            | None \<Rightarrow> False)) \<or> isReference (href link)
                       then (Some (renameReferenceLinks allRefsInfo newName), snd refs)
                       else if isExternal (href link)
                       then (Some (renameExternalLink allRefsInfo newName), snd refs)
                       else if fragmentContains link pos \<and>
                               (kind link = Definition \<or> (kind link = Link \<and> isInternal (href link)))
                       then renameFragment env (snd refs) allRefsInfo newName cancelled
                       else if \<not> fragmentContains link pos \<and>
                               (kind link = Link \<or> kind link = Definition) \<and> isInternal (href link)
                       then
                         (case href link of
                            Internal p f \<Rightarrow>
                              (Some (renameFilePath env (resource (source link)) p allRefsInfo
                                       newName cancelled), snd refs)
                          | _ \<Rightarrow> (None, snd refs))
                       else (None, snd refs))))"


section \<open>The cascade of a header rename\<close>

text \<open>
  The claim in its own words. The references to a header are those that the provider
  gives at the start of the header, when one of them is the trigger location. For every
  index of both tables of contents at which the old entry is not on the line of the
  renamed header and the slugs differ, every link reference to the new entry gets the
  new slug. The slug of the renamed header is the slug of the new entry at its index, or
  the slug of the new text when the old table has no entry on its line. Every header
  among the references of the trigger gets the new text; every link gets the new slug in
  its fragment, or the new text when it has no fragment or is external.
\<close>

definition referencesAt :: "workspaceEnv \<Rightarrow> textDocument \<Rightarrow> position \<Rightarrow> mdReference list" where
  "referencesAt env doc pos =
     (let refs = getReferencesAtPosition env doc pos
      in if list_ex isTriggerLocation refs then refs else [])"

definition changedHeaderEdits :: "workspaceEnv \<Rightarrow> textDocument \<Rightarrow> tocEntry \<Rightarrow> workspaceEdit list" where
  "changedHeaderEdits env doc newEntry =
     map (\<lambda>ref. Replace (resource (source (refLink ref))) (fragmentOrLocationRange ref)
                   (slug newEntry))
         (filter isLinkReference
            (referencesAt env doc (start (locRange (headerLocation newEntry)))))"

definition onLine :: "int \<Rightarrow> tocEntry \<Rightarrow> bool" where
  "onLine l entry = (line (start (locRange (headerLocation entry))) = l)"

definition cascadeEdits ::
  "workspaceEnv \<Rightarrow> textDocument \<Rightarrow> int \<Rightarrow> tocEntry list \<Rightarrow> tocEntry list \<Rightarrow> workspaceEdit list" where
  "cascadeEdits env doc l oldToc newToc =
     concat (map (\<lambda>i. changedHeaderEdits env doc (newToc ! i))
                 (filter (\<lambda>i. \<not> onLine l (oldToc ! i) \<and> slug (oldToc ! i) \<noteq> slug (newToc ! i))
                         [0..<min (length oldToc) (length newToc)]))"

definition renamedSlug :: "workspaceEnv \<Rightarrow> string \<Rightarrow> int \<Rightarrow> tocEntry list \<Rightarrow> tocEntry list \<Rightarrow> string" where
  "renamedSlug env newHeaderText l oldToc newToc =
     (let indices = filter (\<lambda>i. onLine l (oldToc ! i)) [0..<min (length oldToc) (length newToc)]
      in if indices = [] then slugFromHeading env newHeaderText else slug (newToc ! last indices))"

definition triggerEdits :: "mdReference list \<Rightarrow> string \<Rightarrow> string \<Rightarrow> workspaceEdit list" where
  "triggerEdits refs newHeaderText newSlug =
     map (\<lambda>ref. if isHeaderReference ref then
                   Replace (locUri (refLocation ref)) (locRange (refHeaderTextLocation ref))
                     newHeaderText
                 else
                   Replace (resource (source (refLink ref))) (fragmentOrLocationRange ref)
                     (if hrefFragmentRange (source (refLink ref)) = None \<or>
                         isExternal (href (refLink ref))
                      then newHeaderText else newSlug))
         refs"

text \<open>
  The references kept from an earlier call agree with a document when, for the path and
  version of that document, they are what the provider gives for it.
\<close>

definition cacheAgrees :: "workspaceEnv \<Rightarrow> cachedRefs option \<Rightarrow> textDocument \<Rightarrow> bool" where
  "cacheAgrees env cache doc =
     (case cache of
        None \<Rightarrow> True
      | Some c \<Rightarrow>
          \<not> (fsPath env (cResource c) = fsPath env (docUri doc) \<and> cVersion c = docVersion doc) \<or>
          (cReferences c = getReferencesAtPosition env doc (cPosition c) \<and>
           find isTriggerLocation (cReferences c) = Some (cTriggerRef c)))"

lemma arePositionsEqual_eq: "arePositionsEqual a b \<longleftrightarrow> a = b"
  by (auto simp: arePositionsEqual_def)

lemma zip_nth_upt:
  "zip xs ys = map (\<lambda>i. (xs ! i, ys ! i)) [0..<min (length xs) (length ys)]"
  by (rule nth_equalityI) simp_all

definition compareStep :: "int \<Rightarrow> string \<times> tocEntry list \<Rightarrow> tocEntry \<times> tocEntry \<Rightarrow> string \<times> tocEntry list" where
  "compareStep l st p =
     (if onLine l (fst p) then (slug (snd p), snd st)
      else if slug (fst p) \<noteq> slug (snd p) then (fst st, snd st @ [snd p])
      else st)"

lemma compareTocs_foldl:
  "compareTocs l oldToc newToc st = foldl (compareStep l) st (zip oldToc newToc)"
  by (induction l oldToc newToc st rule: compareTocs.induct)
     (simp_all add: compareStep_def onLine_def)

lemma foldl_compareStep:
  "foldl (compareStep l) (s, ch) ps =
     ((let ts = filter (\<lambda>p. onLine l (fst p)) ps
       in if ts = [] then s else slug (snd (last ts))),
      ch @ map snd (filter (\<lambda>p. \<not> onLine l (fst p) \<and> slug (fst p) \<noteq> slug (snd p)) ps))"
  by (induction ps arbitrary: s ch) (auto simp: compareStep_def Let_def)

lemma compareTocs_spec:
  "compareTocs l oldToc newToc (slugFromHeading env newHeaderText, []) =
     (renamedSlug env newHeaderText l oldToc newToc,
      map (\<lambda>i. newToc ! i)
          (filter (\<lambda>i. \<not> onLine l (oldToc ! i) \<and> slug (oldToc ! i) \<noteq> slug (newToc ! i))
                  [0..<min (length oldToc) (length newToc)]))"
  by (simp add: compareTocs_foldl foldl_compareStep renamedSlug_def Let_def zip_nth_upt
        filter_map o_def last_map)

lemma foldl_replace:
  "foldl (\<lambda>builder ref. if P ref then replace builder (f ref) (g ref) (h ref) else builder) b xs =
     b @ map (\<lambda>ref. Replace (f ref) (g ref) (h ref)) (filter P xs)"
  by (induction xs arbitrary: b) (simp_all add: replace_def)

lemma getAllReferences_agrees:
  assumes "cacheAgrees env cache doc"
  shows "(case fst (getAllReferences env cache doc pos False) of
            Some r \<Rightarrow> cReferences r | None \<Rightarrow> []) = referencesAt env doc pos"
    and "cacheAgrees env (snd (getAllReferences env cache doc pos False)) doc"
  using assms
  by (auto simp: getAllReferences_def cacheAgrees_def referencesAt_def Let_def
        arePositionsEqual_eq list_ex_iff find_None_iff
      split: option.splits dest: find_Some_iff[THEN iffD1])

lemma renameChangedHeaders_spec:
  "cacheAgrees env cache doc \<Longrightarrow>
     fst (renameChangedHeaders env doc False hs cache b) =
       Some (b @ concat (map (changedHeaderEdits env doc) hs)) \<and>
     cacheAgrees env (snd (renameChangedHeaders env doc False hs cache b)) doc"
proof (induction hs arbitrary: cache b)
  case Nil
  then show ?case by simp
next
  case (Cons h hs)
  let ?p = "start (locRange (headerLocation h))"
  note a = getAllReferences_agrees[OF Cons.prems, of ?p]
  show ?case
    using Cons.IH[OF a(2)] a(1)
    by (simp add: Let_def foldl_replace changedHeaderEdits_def)
qed

lemma renameTriggerReferences_spec:
  "renameTriggerReferences info newHeaderText newSlug b =
     b @ triggerEdits (cReferences info) newHeaderText newSlug"
proof -
  have "foldl (\<lambda>builder ref.
              case ref of
                HeaderReference loc trig isDef t headerTextLoc \<Rightarrow>
                  replace builder (locUri loc) (locRange headerTextLoc) newHeaderText
              | LinkReference loc trig isDef link \<Rightarrow>
                  replace builder (resource (source link)) (fragmentOrLocationRange ref)
                    (if hrefFragmentRange (source link) = None \<or>
                        (case href link of External u \<Rightarrow> True | _ \<Rightarrow> False)
                     then newHeaderText else newSlug))
           b refs = b @ triggerEdits refs newHeaderText newSlug" for refs
    by (induction refs arbitrary: b)
       (auto simp: triggerEdits_def replace_def isExternal_def split: mdReference.splits)
  then show ?thesis by (simp add: renameTriggerReferences_def)
qed

lemma getAllReferences_trigger:
  assumes "cacheAgrees env cache document"
      and "find isTriggerLocation (getReferencesAtPosition env document pos) = Some t"
  shows "\<exists>c. fst (getAllReferences env cache document pos False) = Some c \<and>
             cReferences c = getReferencesAtPosition env document pos \<and> cTriggerRef c = t"
  using assms
  by (auto simp: getAllReferences_def cacheAgrees_def Let_def arePositionsEqual_eq
      split: option.splits)

lemma renameFragment_spec:
  assumes "find isHeaderReference (cReferences info) = Some existingHeader"
      and "openMarkdownDocument env (locUri (refLocation existingHeader)) = Some doc"
      and "cacheAgrees env cache doc"
  shows "fst (renameFragment env cache info newHeaderText False) =
           Some (cascadeEdits env doc (line (start (locRange (refLocation existingHeader))))
                   (getForDocument env doc)
                   (createToc env (editedDocument existingHeader doc newHeaderText)) @
                 triggerEdits (cReferences info) newHeaderText
                   (renamedSlug env newHeaderText
                      (line (start (locRange (refLocation existingHeader))))
                      (getForDocument env doc)
                      (createToc env (editedDocument existingHeader doc newHeaderText))))"
  using assms(1,2) renameChangedHeaders_spec[OF assms(3)]
  by (simp add: renameFragment_def Let_def compareTocs_spec renameTriggerReferences_spec
        cascadeEdits_def o_def split: option.splits)


text \<open>
  Claim C1. When the references at the position have a header as their trigger, the
  document of the first header among them opens, the token is not cancelled and the
  references kept from earlier calls agree with the documents, \<open>provideRenameEdits\<close>
  returns first the edits of the cascade and then the edits of the trigger: for every
  index at which the old entry is on another line than the renamed header and the two
  tables of contents give different slugs, the new slug in every link reference to that
  header; then the new text in every header reference of the trigger, and in every link
  reference the slug that the edited document gives the renamed header, or the new text
  when the link has no fragment range or an external href.
\<close>

theorem header_rename_cascade:
  assumes "cacheAgrees env cache document"
      and "find isTriggerLocation (getReferencesAtPosition env document pos) = Some triggerRef"
      and "isHeaderReference triggerRef"
      and "find isHeaderReference (getReferencesAtPosition env document pos) = Some existingHeader"
      and "openMarkdownDocument env (locUri (refLocation existingHeader)) = Some doc"
      and "cacheAgrees env (snd (getAllReferences env cache document pos False)) doc"
  shows "fst (provideRenameEdits env cache document pos newHeaderText False) =
           Some (cascadeEdits env doc (line (start (locRange (refLocation existingHeader))))
                   (getForDocument env doc)
                   (createToc env (editedDocument existingHeader doc newHeaderText)) @
                 triggerEdits (getReferencesAtPosition env document pos) newHeaderText
                   (renamedSlug env newHeaderText
                      (line (start (locRange (refLocation existingHeader))))
                      (getForDocument env doc)
                      (createToc env (editedDocument existingHeader doc newHeaderText))))"
proof -
  obtain c where c: "fst (getAllReferences env cache document pos False) = Some c"
      "cReferences c = getReferencesAtPosition env document pos" "cTriggerRef c = triggerRef"
    using getAllReferences_trigger[OF assms(1,2)] by blast
  have ne: "cReferences c \<noteq> []"
    using assms(2) c(2) by auto
  have "fst (provideRenameEdits env cache document pos newHeaderText False) =
          fst (renameFragment env (snd (getAllReferences env cache document pos False)) c
                 newHeaderText False)"
    using c ne assms(3)
    by (cases triggerRef) (simp_all add: provideRenameEdits_def Let_def)
  also have "\<dots> = Some (cascadeEdits env doc (line (start (locRange (refLocation existingHeader))))
                   (getForDocument env doc)
                   (createToc env (editedDocument existingHeader doc newHeaderText)) @
                 triggerEdits (cReferences c) newHeaderText
                   (renamedSlug env newHeaderText
                      (line (start (locRange (refLocation existingHeader))))
                      (getForDocument env doc)
                      (createToc env (editedDocument existingHeader doc newHeaderText))))"
    using assms(4,5) c(2) by (intro renameFragment_spec[OF _ _ assms(6)]) simp_all
  finally show ?thesis by (simp add: c(2))
qed

section \<open>A workspace for the examples\<close>

text \<open>
  The examples run in a workspace of Markdown documents given by name, with simple
  stand-ins for the collaborators: paths are lists of segments separated by slashes, a
  link is resolved against the directory of its document, a header is a line that starts
  with a hash sign and a space, its slug is its text in lower case, with a counter
  after the first header of the same slug, and the references to a header are the header
  and the links of the document whose fragment is its slug.
\<close>

fun splitOn :: "char \<Rightarrow> string \<Rightarrow> string \<Rightarrow> string list" where
  "splitOn d acc [] = [rev acc]"
| "splitOn d acc (x # xs) = (if x = d then rev acc # splitOn d [] xs else splitOn d (x # acc) xs)"

definition segments :: "string \<Rightarrow> string list" where
  "segments p = filter (\<lambda>s. s \<noteq> []) (splitOn (CHR ''/'') [] p)"

fun normalizeSegments :: "string list \<Rightarrow> string list \<Rightarrow> string list" where
  "normalizeSegments acc [] = rev acc"
| "normalizeSegments acc (s # ss) =
     (if s = ''.'' then normalizeSegments acc ss
      else if s = ''..'' then normalizeSegments (tl acc) ss
      else normalizeSegments (s # acc) ss)"

definition joinSegments :: "string list \<Rightarrow> string" where
  "joinSegments ss = (case ss of [] \<Rightarrow> [] | _ \<Rightarrow> concat (map (\<lambda>s. s @ ''/'') (butlast ss)) @ last ss)"

fun commonPrefix :: "string list \<Rightarrow> string list \<Rightarrow> nat" where
  "commonPrefix (x # xs) (y # ys) = (if x = y then Suc (commonPrefix xs ys) else 0)"
| "commonPrefix xs ys = 0"

definition examplePosixRelative :: "string \<Rightarrow> string \<Rightarrow> string" where
  "examplePosixRelative fromPath toPath =
     (let f = normalizeSegments [] (segments fromPath);
          t = normalizeSegments [] (segments toPath);
          k = commonPrefix f t
      in joinSegments (replicate (length f - k) ''..'' @ drop k t))"

definition exampleJoinPath :: "uri \<Rightarrow> string \<Rightarrow> uri" where
  "exampleJoinPath base rel = ''/'' @ joinSegments (normalizeSegments [] (segments base @ segments rel))"

definition exampleDirname :: "uri \<Rightarrow> uri" where
  "exampleDirname u = ''/'' @ joinSegments (butlast (segments u))"

definition exampleExtname :: "uri \<Rightarrow> string" where
  "exampleExtname u =
     (case segments u of
        [] \<Rightarrow> []
      | _ \<Rightarrow> (let name = last (segments u); ext = takeWhile (\<lambda>c. c \<noteq> CHR ''.'') (rev name)
              in if length ext + 1 < length name then ''.'' @ rev ext else []))"

definition exampleResolveLink :: "uri \<Rightarrow> uri \<Rightarrow> string \<Rightarrow> (uri \<times> string) option" where
  "exampleResolveLink root sourceDocUri link =
     (let path = takeWhile (\<lambda>c. c \<noteq> CHR ''#'') link;
          fragment = drop (length path + 1) link
      in if path = [] then Some (sourceDocUri, fragment)
         else if hd path = CHR ''/'' then Some (exampleJoinPath root path, fragment)
         else Some (exampleJoinPath (exampleDirname sourceDocUri) path, fragment))"

definition exampleRelativePath :: "uri \<Rightarrow> uri \<Rightarrow> bool \<Rightarrow> string option" where
  "exampleRelativePath fromDoc toDoc preferDotSlash =
     (let newLink = examplePosixRelative (exampleDirname fromDoc) toDoc
      in Some (if preferDotSlash \<and> \<not> startsWith newLink ''../'' then ''./'' @ newLink else newLink))"

definition exampleIsParentDir :: "uri \<Rightarrow> uri \<Rightarrow> bool" where
  "exampleIsParentDir parent child =
     (length (segments parent) < length (segments child) \<and>
      take (length (segments parent)) (segments child) = segments parent)"

definition toLower :: "char \<Rightarrow> char" where
  "toLower c = (case map_of (zip upperLetters lowerLetters) c of Some l \<Rightarrow> l | None \<Rightarrow> c)"

definition exampleSlug :: "string \<Rightarrow> string" where
  "exampleSlug t = map (\<lambda>c. if c = CHR '' '' then CHR ''-'' else toLower c) t"

fun exampleSlugs :: "string list \<Rightarrow> string list \<Rightarrow> string list" where
  "exampleSlugs seen [] = []"
| "exampleSlugs seen (t # ts) =
     (let s = exampleSlug t; n = length (filter (\<lambda>x. x = s) seen)
      in (if n = 0 then s else s @ ''-'' @ [digits ! n]) # exampleSlugs (s # seen) ts)"

definition exampleToc :: "textDocument \<Rightarrow> tocEntry list" where
  "exampleToc doc =
     (let headers = filter (\<lambda>p. startsWith (snd p) ''# '')
                      (zip (map int [0..<length (docLines doc)]) (docLines doc));
          slugs = exampleSlugs [] (map (\<lambda>p. drop 2 (snd p)) headers)
      in map (\<lambda>q. let l = fst (fst q); t = snd (fst q);
                      loc = \<lparr>locUri = docUri doc, locRange = makeRange l 0 l (int (length t))\<rparr>
                  in \<lparr>slug = snd q, tocText = drop 2 t, level = 1, tocLine = l,
                      sectionLocation = loc, headerLocation = loc,
                      headerTextLocation =
                        \<lparr>locUri = docUri doc, locRange = makeRange l 2 l (int (length t))\<rparr>\<rparr>)
             (zip headers slugs))"

definition exampleLinkEnv :: linkEnv where
  "exampleLinkEnv = exampleEnv\<lparr>resolveInternalDocumentLink := exampleResolveLink ''/workspace''\<rparr>"

definition exampleLinks :: "textDocument \<Rightarrow> mdLink list" where
  "exampleLinks doc = getAllLinks exampleLinkEnv [] False doc"

definition exampleReferences :: "textDocument \<Rightarrow> position \<Rightarrow> mdReference list" where
  "exampleReferences doc pos =
     (case find (\<lambda>e. tocLine e = line pos) (exampleToc doc) of
        None \<Rightarrow> []
      | Some e \<Rightarrow>
          HeaderReference (headerLocation e) True True (tocText e) (headerTextLocation e) #
          map (\<lambda>l. LinkReference \<lparr>locUri = docUri doc, locRange = hrefRange (source l)\<rparr> False False l)
              (filter (\<lambda>l. href l = Internal (docUri doc) (slug e)) (exampleLinks doc)))"

definition exampleFileReferences :: "textDocument list \<Rightarrow> uri \<Rightarrow> mdReference list" where
  "exampleFileReferences docs u =
     concat (map (\<lambda>doc.
               map (\<lambda>l. LinkReference \<lparr>locUri = docUri doc, locRange = hrefRange (source l)\<rparr> False False l)
                   (filter (\<lambda>l. case href l of Internal p f \<Rightarrow> p = u | _ \<Rightarrow> False)
                           (exampleLinks doc)))
             docs)"

definition exampleWorkspace :: "textDocument list \<Rightarrow> workspaceEnv" where
  "exampleWorkspace docs =
     \<lparr>linkEnvOf = exampleLinkEnv,
      stat = (\<lambda>u. if list_ex (\<lambda>d. docUri d = u) docs then Some False
                  else if list_ex (\<lambda>d. exampleIsParentDir u (docUri d)) docs then Some True
                  else None),
      openMarkdownDocument = (\<lambda>u. find (\<lambda>d. docUri d = u) docs),
      hasContainingDocument = (\<lambda>u. False),
      statLinkToMarkdownFile =
        (\<lambda>u. if list_ex (\<lambda>d. docUri d = u) docs then Some u
              else if list_ex (\<lambda>d. docUri d = u @ ''.md'') docs then Some (u @ ''.md'')
              else None),
      markdownFileExtension = ''md'',
      looksLikeMarkdownUri = (\<lambda>u. exampleExtname u = ''.md''),
      isExcludedPath = (\<lambda>u. False),
      tryAppendMarkdownFileExtension = (\<lambda>u. if exampleExtname u = [] then Some (u @ ''.md'') else None),
      removeNewUriExtIfNeeded =
        (\<lambda>h u. case h of
                  Internal p f \<Rightarrow>
                    if exampleExtname p = [] \<and> exampleExtname u = ''.md''
                    then take (length u - 3) u else u
                | _ \<Rightarrow> u),
      uriPath = (\<lambda>u. u),
      fsPath = (\<lambda>u. u),
      withPath = (\<lambda>u p. p),
      extname = exampleExtname,
      joinPath = exampleJoinPath,
      uriDirname = exampleDirname,
      posixRelative = examplePosixRelative,
      posixJoin = exampleJoinPath,
      isSameResource = (\<lambda>a b. a = b),
      isParentDir = exampleIsParentDir,
      computeRelativePath = exampleRelativePath,
      encodeURI = (\<lambda>s. s),
      needsAngleBracketLink = (\<lambda>s. CHR '' '' \<in> set s),
      escapeForAngleBracketLink = (\<lambda>s. s),
      parseLocationInfoFromFragment = (\<lambda>s. None),
      slugFromHeading = exampleSlug,
      getForDocument = exampleToc,
      createToc = exampleToc,
      getForContainingDoc = exampleToc,
      getReferencesAtPosition = exampleReferences,
      getReferencesToFileInWorkspace = exampleFileReferences docs,
      linkCacheEntries = map (\<lambda>d. (docUri d, exampleLinks d)) docs,
      linkCacheForDoc = exampleLinks\<rparr>"

definition duplicateHeadersDoc :: textDocument where
  "duplicateHeadersDoc = exampleDoc (joinLines [''# A'', ''# B'', ''# B'', ''[x](#b-1)''])"


definition renamedHeaderA :: mdReference where
  "renamedHeaderA =
     HeaderReference \<lparr>locUri = ''/workspace/test.md'', locRange = makeRange 0 0 0 3\<rparr> True True ''A''
       \<lparr>locUri = ''/workspace/test.md'', locRange = makeRange 0 2 0 3\<rparr>"

theorem header_rename_cascade_witness:
  "cacheAgrees (exampleWorkspace [duplicateHeadersDoc]) None duplicateHeadersDoc \<and>
   find isTriggerLocation
     (getReferencesAtPosition (exampleWorkspace [duplicateHeadersDoc]) duplicateHeadersDoc
        (makePosition 0 2)) = Some renamedHeaderA \<and>
   isHeaderReference renamedHeaderA \<and>
   find isHeaderReference
     (getReferencesAtPosition (exampleWorkspace [duplicateHeadersDoc]) duplicateHeadersDoc
        (makePosition 0 2)) = Some renamedHeaderA \<and>
   openMarkdownDocument (exampleWorkspace [duplicateHeadersDoc])
     (locUri (refLocation renamedHeaderA)) = Some duplicateHeadersDoc \<and>
   cacheAgrees (exampleWorkspace [duplicateHeadersDoc])
     (snd (getAllReferences (exampleWorkspace [duplicateHeadersDoc]) None duplicateHeadersDoc
             (makePosition 0 2) False)) duplicateHeadersDoc \<and>
   fst (provideRenameEdits (exampleWorkspace [duplicateHeadersDoc]) None duplicateHeadersDoc
          (makePosition 0 2) ''B'' False) =
     Some [Replace ''/workspace/test.md'' (makeRange 3 5 3 8) ''b-2'',
           Replace ''/workspace/test.md'' (makeRange 0 2 0 3) ''B'']"
proof -
  let ?W = "exampleWorkspace [duplicateHeadersDoc]"
  let ?D = "duplicateHeadersDoc"
  let ?p = "makePosition 0 2"
  have h1: "cacheAgrees ?W None ?D"
    by (simp add: cacheAgrees_def)
  have h2: "find isTriggerLocation (getReferencesAtPosition ?W ?D ?p) = Some renamedHeaderA"
    by code_simp
  have h3: "isHeaderReference renamedHeaderA"
    by (simp add: renamedHeaderA_def)
  have h4: "find isHeaderReference (getReferencesAtPosition ?W ?D ?p) = Some renamedHeaderA"
    by code_simp
  have h5: "openMarkdownDocument ?W (locUri (refLocation renamedHeaderA)) = Some ?D"
    by code_simp
  have h6: "cacheAgrees ?W (snd (getAllReferences ?W None ?D ?p False)) ?D"
    by code_simp
  have v: "cascadeEdits ?W ?D (line (start (locRange (refLocation renamedHeaderA))))
             (getForDocument ?W ?D) (createToc ?W (editedDocument renamedHeaderA ?D ''B'')) @
           triggerEdits (getReferencesAtPosition ?W ?D ?p) ''B''
             (renamedSlug ?W ''B'' (line (start (locRange (refLocation renamedHeaderA))))
                (getForDocument ?W ?D) (createToc ?W (editedDocument renamedHeaderA ?D ''B''))) =
           [Replace ''/workspace/test.md'' (makeRange 3 5 3 8) ''b-2'',
            Replace ''/workspace/test.md'' (makeRange 0 2 0 3) ''B'']"
    by code_simp
  from header_rename_cascade[OF h1 h2 h3 h4 h5 h6, of "''B''"] v h1 h2 h3 h4 h5 h6
  show ?thesis by simp
qed

section \<open>Renaming files\<close>













section \<open>The links of a renamed file\<close>
























section \<open>The target of a link\<close>

text \<open>
  The place a link leads to: a file, with a position and a fragment when it has them, a
  folder, or an external resource.
\<close>

datatype resolvedDocumentLinkTarget =
    FileTarget uri "position option" "string option"
  | FolderTarget uri
  | ExternalTarget uri

text \<open>
  Modelled from the spec: \<open>lookupByFragment\<close> of the table of contents (tableOfContents.ts)
  is not among the source files. It gives the first entry whose slug is the fragment.
\<close>

definition lookupByFragment :: "tocEntry list \<Rightarrow> string \<Rightarrow> tocEntry option" where
  "lookupByFragment entries fragmentText = find (\<lambda>entry. slug entry = fragmentText) entries"

text \<open>The end of \<open>resolveInternalLinkTarget\<close>, once the target file is settled.\<close>

definition resolveFragment ::
  "workspaceEnv \<Rightarrow> uri \<Rightarrow> string \<Rightarrow> bool \<Rightarrow> resolvedDocumentLinkTarget" where
  "resolveFragment env target linkFragment cancelled =
     (if linkFragment = [] then FileTarget target None None
      else
        (case parseLocationInfoFromFragment env linkFragment of
           Some locationLinkPosition \<Rightarrow> FileTarget target (Some locationLinkPosition) None
         | None \<Rightarrow>
             (let doc = openMarkdownDocument env target
              in if cancelled then FileTarget target None None
                 else
                   (case doc of
                      None \<Rightarrow> FileTarget target None None
                    | Some d \<Rightarrow>
                        (case lookupByFragment (getForContainingDoc env d) linkFragment of
                           Some entry \<Rightarrow>
                             FileTarget (locUri (headerLocation entry))
                               (Some (start (locRange (headerLocation entry)))) (Some linkFragment)
                         | None \<Rightarrow> FileTarget target None None)))))"

definition resolveInternalLinkTarget ::
  "workspaceEnv \<Rightarrow> uri \<Rightarrow> string \<Rightarrow> bool \<Rightarrow> resolvedDocumentLinkTarget" where
  "resolveInternalLinkTarget env linkPath linkFragment cancelled =
     (if \<not> hasContainingDocument env linkPath then
        (let st = stat env linkPath
         in if st = Some True then FolderTarget linkPath
            else if cancelled then FolderTarget linkPath
            else if st = None then
              (case tryAppendMarkdownFileExtension env linkPath of
                 Some dotMdResource \<Rightarrow>
                   if stat env dotMdResource \<noteq> None
                   then resolveFragment env dotMdResource linkFragment cancelled
                   else FileTarget linkPath None None
               | None \<Rightarrow> FileTarget linkPath None None)
            else resolveFragment env linkPath linkFragment cancelled)
      else resolveFragment env linkPath linkFragment cancelled)"

definition resolveLinkTarget ::
  "workspaceEnv \<Rightarrow> string \<Rightarrow> uri \<Rightarrow> bool \<Rightarrow> resolvedDocumentLinkTarget option" where
  "resolveLinkTarget env linkText sourceDoc cancelled =
     (case fst (createHref (linkEnvOf env) sourceDoc linkText) of
        Some (Internal p f) \<Rightarrow>
          (case resolveInternalDocumentLink (linkEnvOf env) sourceDoc linkText of
             None \<Rightarrow> None
           | Some resolved \<Rightarrow>
               Some (resolveInternalLinkTarget env (fst resolved) (snd resolved) cancelled))
      | _ \<Rightarrow> None)"


lemma dot_slash_has_no_scheme:
  assumes "startsWith linkText ''./''"
  shows "\<not> hasUriScheme linkText"
proof
  assume "hasUriScheme linkText"
  then obtain s t where st: "linkText = s @ CHR '':'' # t" "2 \<le> length s"
      "list_all (\<lambda>c. c \<in> set schemeChars) s"
    by (auto simp: hasUriScheme_def)
  from st(2) obtain a s' where s: "s = a # s'"
    by (cases s) auto
  have "a = CHR ''.''"
    using assms st(1) s by (simp add: startsWith_def)
  moreover have "a \<in> set schemeChars"
    using st(3) s by simp
  ultimately show False
    by (simp add: schemeChars_def lowerLetters_def upperLetters_def)
qed

text \<open>
  Claim C5. For a link text that starts with \<open>./\<close> and resolves to a target with a
  fragment that is not empty and not a line token, when the target is an existing file
  (or has a containing document), opens as a document, and the token is not cancelled:
  \<open>resolveLinkTarget\<close> returns a file target; when an entry of the table of contents of
  the document has the fragment as its slug, the target is the URI of the header of the
  first such entry, at the start of the header, with the fragment; when no entry has, the
  target is the resolved file, without a position.
\<close>

theorem link_target_of_heading_fragment:
  assumes "startsWith linkText ''./''"
      and "resolveInternalDocumentLink (linkEnvOf env) sourceDoc linkText = Some (target, fragment)"
      and "fragment \<noteq> []"
      and "parseLocationInfoFromFragment env fragment = None"
      and "hasContainingDocument env target \<or> stat env target = Some False"
      and "openMarkdownDocument env target = Some doc"
  shows "resolveLinkTarget env linkText sourceDoc False =
           Some (case find (\<lambda>entry. slug entry = fragment) (getForContainingDoc env doc) of
                   Some entry \<Rightarrow>
                     FileTarget (locUri (headerLocation entry))
                       (Some (start (locRange (headerLocation entry)))) (Some fragment)
                 | None \<Rightarrow> FileTarget target None None)"
proof -
  have href: "fst (createHref (linkEnvOf env) sourceDoc linkText) = Some (Internal target fragment)"
    using assms(2) dot_slash_has_no_scheme[OF assms(1)]
    by (simp add: createHref_def rtest_uriSchemePattern)
  have frag: "resolveFragment env target fragment False =
                (case find (\<lambda>entry. slug entry = fragment) (getForContainingDoc env doc) of
                   Some entry \<Rightarrow>
                     FileTarget (locUri (headerLocation entry))
                       (Some (start (locRange (headerLocation entry)))) (Some fragment)
                 | None \<Rightarrow> FileTarget target None None)"
    using assms(3,4,6) by (simp add: resolveFragment_def lookupByFragment_def)
  have "resolveInternalLinkTarget env target fragment False = resolveFragment env target fragment False"
    using assms(5) by (auto simp: resolveInternalLinkTarget_def Let_def)
  then show ?thesis
    using href frag assms(2) by (simp add: resolveLinkTarget_def)
qed

definition headingDoc :: textDocument where
  "headingDoc = \<lparr>docUri = ''/workspace/x.md'', docVersion = 1,
                  docText = joinLines [''# Title'', ''text'', ''# Heading'']\<rparr>"

definition headingDocs :: "textDocument list" where
  "headingDocs =
     [\<lparr>docUri = ''/workspace/test.md'', docVersion = 1, docText = ''[a](./x.md#heading)''\<rparr>,
      headingDoc]"

theorem link_target_of_heading_fragment_witness:
  "startsWith ''./x.md#heading'' ''./'' \<and>
   resolveInternalDocumentLink (linkEnvOf (exampleWorkspace headingDocs)) ''/workspace/test.md''
     ''./x.md#heading'' = Some (''/workspace/x.md'', ''heading'') \<and>
   parseLocationInfoFromFragment (exampleWorkspace headingDocs) ''heading'' = None \<and>
   stat (exampleWorkspace headingDocs) ''/workspace/x.md'' = Some False \<and>
   openMarkdownDocument (exampleWorkspace headingDocs) ''/workspace/x.md'' = Some headingDoc \<and>
   resolveLinkTarget (exampleWorkspace headingDocs) ''./x.md#heading'' ''/workspace/test.md'' False =
     Some (FileTarget ''/workspace/x.md'' (Some (makePosition 2 0)) (Some ''heading'')) \<and>
   resolveInternalDocumentLink (linkEnvOf (exampleWorkspace headingDocs)) ''/workspace/test.md''
     ''./x.md#head'' = Some (''/workspace/x.md'', ''head'') \<and>
   parseLocationInfoFromFragment (exampleWorkspace headingDocs) ''head'' = None \<and>
   resolveLinkTarget (exampleWorkspace headingDocs) ''./x.md#head'' ''/workspace/test.md'' False =
     Some (FileTarget ''/workspace/x.md'' None None)"
proof -
  let ?W = "exampleWorkspace headingDocs"
  have s1: "startsWith ''./x.md#heading'' ''./''" and s2: "startsWith ''./x.md#head'' ''./''"
    by (simp_all add: startsWith_def)
  have r1: "resolveInternalDocumentLink (linkEnvOf ?W) ''/workspace/test.md'' ''./x.md#heading'' =
              Some (''/workspace/x.md'', ''heading'')"
    by code_simp
  have r2: "resolveInternalDocumentLink (linkEnvOf ?W) ''/workspace/test.md'' ''./x.md#head'' =
              Some (''/workspace/x.md'', ''head'')"
    by code_simp
  have p1: "parseLocationInfoFromFragment ?W ''heading'' = None"
    by code_simp
  have p2: "parseLocationInfoFromFragment ?W ''head'' = None"
    by code_simp
  have st: "stat ?W ''/workspace/x.md'' = Some False"
    by code_simp
  have d: "openMarkdownDocument ?W ''/workspace/x.md'' = Some headingDoc"
    by code_simp
  have v1: "(case find (\<lambda>entry. slug entry = ''heading'') (getForContainingDoc ?W headingDoc) of
               Some entry \<Rightarrow>
                 FileTarget (locUri (headerLocation entry))
                   (Some (start (locRange (headerLocation entry)))) (Some ''heading'')
             | None \<Rightarrow> FileTarget ''/workspace/x.md'' None None) =
            FileTarget ''/workspace/x.md'' (Some (makePosition 2 0)) (Some ''heading'')"
    by code_simp
  have v2: "(case find (\<lambda>entry. slug entry = ''head'') (getForContainingDoc ?W headingDoc) of
               Some entry \<Rightarrow>
                 FileTarget (locUri (headerLocation entry))
                   (Some (start (locRange (headerLocation entry)))) (Some ''head'')
             | None \<Rightarrow> FileTarget ''/workspace/x.md'' None None) =
            FileTarget ''/workspace/x.md'' None None"
    by code_simp
  from link_target_of_heading_fragment[OF s1 r1 _ p1 _ d]
       link_target_of_heading_fragment[OF s2 r2 _ p2 _ d] st v1 v2 s1 r1 r2 p1 p2 d
  show ?thesis by simp
qed

section \<open>A long run of backslashes\<close>

text \<open>
  The document of the test \<open>Should not catastrophical backtrack on slashes\<close>: a header
  line, then an opening bracket followed by eighty backslashes. The matcher of this
  development explores every way in which an expression can match, and it is a total
  function, so every scan ends; on this document the five passes find no link.
\<close>

definition backslashesDoc :: textDocument where
  "backslashesDoc =
     exampleDoc (joinLines [''# symbol'', CHR ''['' # replicate 80 chBackslash])"

lemma backslashes_no_link:
  "getAllLinks exampleEnv [] False backslashesDoc = []"
  by code_simp

end
